theory Spec2Isabelle
  imports Main "HOL-Library.Word"
begin

unbundle bit_operations_syntax

section \<open>Packet codec (rdp_protocol.py)\<close>

text \<open>
  Python integers are unbounded and are modelled as \<open>int\<close>; a \<open>bytes\<close> object is a list of
  8-bit words. A port attribute may hold \<open>None\<close> (client.py and server.py construct
  connections that way), so ports are \<open>int option\<close>. The control flags are used only for
  their truth value (\<open>True\<close>/\<open>False\<close> from the constructor, \<open>1\<close>/\<open>0\<close> from decode, which
  Python compares equal), so they are \<open>bool\<close>.
\<close>

type_synonym byte = "8 word"

datatype exn = StructError | TypeError | AttributeError

record RDPPacket =
  source_port :: "int option"
  dest_port :: "int option"
  seq_num :: int
  ack_num :: int
  data :: "byte list"
  syn :: bool
  ack :: bool
  eack :: bool
  rst :: bool
  nul :: bool

text \<open>\<open>struct.pack\<close> with format characters \<open>H\<close> and \<open>I\<close> in network byte order: a value
  outside the field's range, or \<open>None\<close>, raises \<open>struct.error\<close>.\<close>

definition pack_H :: "int \<Rightarrow> exn + byte list" where
  "pack_H n =
     (if 0 \<le> n \<and> n \<le> 65535
      then Inr [word_of_int (n div 256), word_of_int (n mod 256)]
      else Inl StructError)"

definition pack_I :: "int \<Rightarrow> exn + byte list" where
  "pack_I n =
     (if 0 \<le> n \<and> n \<le> 4294967295
      then Inr [word_of_int (n div 16777216), word_of_int (n div 65536 mod 256),
                word_of_int (n div 256 mod 256), word_of_int (n mod 256)]
      else Inl StructError)"

definition pack_port :: "int option \<Rightarrow> exn + byte list" where
  "pack_port v = (case v of None \<Rightarrow> Inl StructError | Some n \<Rightarrow> pack_H n)"

fun struct_pack :: "(exn + byte list) list \<Rightarrow> exn + byte list" where
  "struct_pack [] = Inr []"
| "struct_pack (f # fs) =
     (case f of
        Inl e \<Rightarrow> Inl e
      | Inr bs \<Rightarrow> (case struct_pack fs of Inl e \<Rightarrow> Inl e | Inr rest \<Rightarrow> Inr (bs @ rest)))"

text \<open>\<open>int.from_bytes(bs, byteorder='big')\<close>.\<close>

definition from_bytes_big :: "byte list \<Rightarrow> int" where
  "from_bytes_big bs = foldl (\<lambda>acc b. acc * 256 + uint b) 0 bs"

text \<open>The loop \<open>for i in range(0, len(bs), 2): checksum += int.from_bytes(bs[i:i+2], 'big')\<close>:
  the slices are the consecutive pairs of \<open>bs\<close>, and a last slice of one byte when the
  length is odd.\<close>

fun add_words :: "int \<Rightarrow> byte list \<Rightarrow> int" where
  "add_words checksum [] = checksum"
| "add_words checksum [b] = checksum + from_bytes_big [b]"
| "add_words checksum (a # b # rest) = add_words (checksum + from_bytes_big [a, b]) rest"

definition compute_checksum :: "RDPPacket \<Rightarrow> exn + int" where
  "compute_checksum p =
     (case struct_pack [pack_port (source_port p), pack_port (dest_port p),
                        pack_H (int (length (data p))), pack_I (seq_num p), pack_I (ack_num p)] of
        Inl e \<Rightarrow> Inl e
      | Inr header_data \<Rightarrow>
          (let checksum = add_words 0 header_data;
               checksum = add_words checksum (data p);
               checksum = drop_bit 16 checksum + (checksum AND 0xffff);
               checksum = drop_bit 16 checksum + checksum
           in Inr (NOT checksum AND 0xffff)))"

definition flag_int :: "bool \<Rightarrow> int" where
  "flag_int b = (if b then 1 else 0)"

definition encode :: "RDPPacket \<Rightarrow> exn + byte list" where
  "encode p =
     (let flags = 0;
          flags = flags OR push_bit 3 (flag_int (syn p));
          flags = flags OR push_bit 2 (flag_int (ack p));
          flags = flags OR push_bit 1 (flag_int (eack p));
          flags = flags OR flag_int (rst p);
          flags = flags OR push_bit 4 (flag_int (nul p));
          header_length = 9;
          version = 1;
          control_and_version = push_bit 12 version OR push_bit 8 flags OR header_length
      in case compute_checksum p of
           Inl e \<Rightarrow> Inl e
         | Inr checksum \<Rightarrow>
             (case struct_pack [pack_H control_and_version, pack_port (source_port p),
                                pack_port (dest_port p), pack_I (int (length (data p))),
                                pack_I (seq_num p), pack_I (ack_num p), pack_I checksum] of
                Inl e \<Rightarrow> Inl e
              | Inr header \<Rightarrow> Inr (header @ data p)))"

text \<open>\<open>bs[i:j]\<close> for \<open>0 \<le> i \<le> j\<close>.\<close>

definition bytes_slice :: "nat \<Rightarrow> nat \<Rightarrow> 'a list \<Rightarrow> 'a list" where
  "bytes_slice i j bs = take (j - i) (drop i bs)"

definition decode :: "byte list \<Rightarrow> exn + RDPPacket" where
  "decode packet_bytes =
     (let hdr = take 22 packet_bytes in
      if length hdr \<noteq> 22 then Inl StructError
      else
        (let control_and_version = from_bytes_big (bytes_slice 0 2 hdr);
             source_port = from_bytes_big (bytes_slice 2 4 hdr);
             dest_port = from_bytes_big (bytes_slice 4 6 hdr);
             data_length = from_bytes_big (bytes_slice 6 10 hdr);
             seq_num = from_bytes_big (bytes_slice 10 14 hdr);
             ack_num = from_bytes_big (bytes_slice 14 18 hdr);
             checksum = from_bytes_big (bytes_slice 18 22 hdr);
             flags = control_and_version AND 0xFF;
             syn = drop_bit 3 flags AND 1;
             ack = drop_bit 2 flags AND 1;
             eack = drop_bit 1 flags AND 1;
             rst = flags AND 1;
             nul = drop_bit 4 flags AND 1;
             data = drop 22 packet_bytes
         in Inr \<lparr>source_port = Some source_port, dest_port = Some dest_port,
                  seq_num = seq_num, ack_num = ack_num, data = data,
                  syn = (syn \<noteq> 0), ack = (ack \<noteq> 0), eack = (eack \<noteq> 0),
                  rst = (rst \<noteq> 0), nul = (nul \<noteq> 0)\<rparr>))"

section \<open>Connection state machine (rdp_connection.py)\<close>

text \<open>
  The connection object is a record that every method takes and returns. A method can
  change attributes and then raise, so each method yields its outcome (a returned value or
  a raised exception), the connection as the method left it, and the datagrams it handed
  to the socket, oldest first.

  The socket is the external transport. \<open>sendto\<close> with a destination address delivers the
  datagram to the transport; with the address \<open>None\<close> it raises \<open>TypeError\<close>. \<open>recvfrom\<close>
  blocks until a datagram arrives, so a method that reads the socket takes the arriving
  datagram and its sender as an argument. The attributes \<open>SND_MAX\<close> and \<open>RMAX_BUF\<close> do
  not exist before \<open>open\<close> has assigned them (\<open>None\<close> here); reading a missing attribute
  raises \<open>AttributeError\<close>.
\<close>

datatype conn_state = CLOSED | LISTEN | SYN_SENT | SYN_RCVD | OPEN | CLOSE_WAIT

fun state_name :: "conn_state \<Rightarrow> string" where
  "state_name CLOSED = ''CLOSED''"
| "state_name LISTEN = ''LISTEN''"
| "state_name SYN_SENT = ''SYN-SENT''"
| "state_name SYN_RCVD = ''SYN-RCVD''"
| "state_name OPEN = ''OPEN''"
| "state_name CLOSE_WAIT = ''CLOSE-WAIT''"

type_synonym address = "string \<times> int"
type_synonym datagram = "byte list \<times> address"

record RDPConnection =
  remote_address :: "address option"
  state :: conn_state
  SND_ISS :: int
  SND_NXT :: int
  SND_UNA :: int
  RCV_CUR :: int
  RCV_MAX :: int
  data_buffer :: "byte list"
  conn_source_port :: "int option"
  conn_dest_port :: "int option"
  SND_MAX :: "int option"
  RMAX_BUF :: "int option"
  local_port :: "int option"

datatype 'a outcome = Returned 'a | Raised exn

type_synonym 'a result = "'a outcome \<times> RDPConnection \<times> datagram list"

text \<open>Sequencing of two statements: the second runs on the connection the first left,
  unless the first raised; the datagrams sent accumulate.\<close>

definition then_do :: "'a result \<Rightarrow> ('a \<Rightarrow> RDPConnection \<Rightarrow> 'b result) \<Rightarrow> 'b result" where
  "then_do r f =
     (case r of
        (Raised e, c, out) \<Rightarrow> (Raised e, c, out)
      | (Returned v, c, out) \<Rightarrow> (case f v c of (r', c', out') \<Rightarrow> (r', c', out @ out')))"

definition init :: "address option \<Rightarrow> int option \<Rightarrow> int option \<Rightarrow> RDPConnection" where
  "init remote_addr src dst =
     \<lparr>remote_address = remote_addr, state = CLOSED, SND_ISS = 0, SND_NXT = 0, SND_UNA = 0,
      RCV_CUR = 0, RCV_MAX = 0, data_buffer = [], conn_source_port = src,
      conn_dest_port = dst, SND_MAX = None, RMAX_BUF = None, local_port = None\<rparr>"

text \<open>The constructor call \<open>RDPPacket(source_port, dest_port, seq_num, ack_num, data, ...)\<close>
  with every flag at its default \<open>False\<close>.\<close>

definition packet :: "int option \<Rightarrow> int option \<Rightarrow> int \<Rightarrow> int \<Rightarrow> byte list \<Rightarrow> RDPPacket" where
  "packet sp dp sq ak d =
     \<lparr>source_port = sp, dest_port = dp, seq_num = sq, ack_num = ak, data = d,
      syn = False, ack = False, eack = False, rst = False, nul = False\<rparr>"

definition send_packet :: "RDPConnection \<Rightarrow> RDPPacket \<Rightarrow> unit result" where
  "send_packet c pkt =
     (case encode pkt of
        Inl e \<Rightarrow> (Raised e, c, [])
      | Inr encoded_packet \<Rightarrow>
          (case remote_address c of
             None \<Rightarrow> (Raised TypeError, c, [])
           | Some a \<Rightarrow> (Returned (), c, [(encoded_packet, a)])))"

definition allocate_local_port :: "RDPConnection \<Rightarrow> int option result" where
  "allocate_local_port c = (Returned (Some 10000), c\<lparr>conn_source_port := Some 10000\<rparr>, [])"

text \<open>\<open>open\<close>: the value drawn by \<open>generate_initial_sequence_number()\<close> (a random integer
  between 0 and 10000) is the argument \<open>iss\<close>.\<close>

definition open_connection ::
  "RDPConnection \<Rightarrow> int \<Rightarrow> bool \<Rightarrow> int option \<Rightarrow> int option \<Rightarrow> int option \<Rightarrow> int option
     \<Rightarrow> string result" where
  "open_connection c iss passive local_port_arg remote_port snd_max rmax_buf =
     (if state c \<noteq> CLOSED then (Returned ''Error - connection already open'', c, [])
      else
        (let c = c\<lparr>SND_ISS := iss\<rparr>;
             c = c\<lparr>SND_NXT := SND_ISS c + 1\<rparr>;
             c = c\<lparr>SND_UNA := SND_ISS c\<rparr>;
             c = c\<lparr>SND_MAX := Some (case snd_max of Some m \<Rightarrow> m | None \<Rightarrow> 10)\<rparr>;
             c = c\<lparr>RMAX_BUF := Some (case rmax_buf of Some m \<Rightarrow> m | None \<Rightarrow> 1024)\<rparr>
         in then_do
              (if passive then
                 (if local_port_arg = None
                  then (Returned (Some ''Error - local port not specified''), c, [])
                  else (Returned None, c\<lparr>state := LISTEN\<rparr>, []))
               else
                 (if remote_port = None
                  then (Returned (Some ''Error - remote port not specified''), c, [])
                  else
                    then_do (if local_port_arg = None then allocate_local_port c
                             else (Returned local_port_arg, c, []))
                      (\<lambda>_ c.
                         (let c = c\<lparr>state := SYN_SENT\<rparr>;
                              syn_packet = (packet (conn_source_port c) remote_port (SND_ISS c) 0 [])
                                             \<lparr>syn := True\<rparr>
                          in then_do (send_packet c syn_packet) (\<lambda>_ c. (Returned None, c, []))))))
              (\<lambda>early c.
                 (case early of
                    Some err \<Rightarrow> (Returned err, c, [])
                  | None \<Rightarrow> (Returned (''Connection opened in state '' @ state_name (state c)), c, [])))))"

definition send_rst :: "RDPConnection \<Rightarrow> unit result" where
  "send_rst c =
     (let rst_packet = (packet (conn_source_port c) (conn_dest_port c) (SND_NXT c) (RCV_CUR c) [])
                         \<lparr>rst := True\<rparr>
      in send_packet c rst_packet)"

definition close :: "RDPConnection \<Rightarrow> string result" where
  "close c =
     (if state c \<in> {LISTEN, SYN_RCVD, SYN_SENT} then
        then_do (send_rst c)
          (\<lambda>_ c. (Returned ''Connection closed from state: LISTEN/SYN-RCVD/SYN-SENT'',
                   c\<lparr>state := CLOSED\<rparr>, []))
      else if state c = OPEN then
        then_do (send_rst c)
          (\<lambda>_ c. (Returned ''Connection set to CLOSE-WAIT from state: OPEN'',
                   c\<lparr>state := CLOSE_WAIT\<rparr>, []))
      else (Returned ''Error - connection not open or already closing'', c, []))"

definition prepare_data_packet :: "RDPConnection \<Rightarrow> byte list \<Rightarrow> RDPPacket" where
  "prepare_data_packet c d =
     (let seq_num = SND_NXT c;
          ack_num = RCV_CUR c;
          source_port = conn_source_port c;
          dest_port = conn_dest_port c
      in packet source_port dest_port seq_num ack_num d)"

text \<open>\<open>send\<close> returns an error string, or \<open>None\<close> after it has sent the packet.\<close>

definition send :: "RDPConnection \<Rightarrow> byte list \<Rightarrow> string option result" where
  "send c d =
     (if state c \<noteq> OPEN then (Returned (Some ''Error - connection not open''), c, [])
      else
        (case SND_MAX c of
           None \<Rightarrow> (Raised AttributeError, c, [])
         | Some snd_max \<Rightarrow>
             if int (length d) > snd_max
             then (Returned (Some ''Error - data size exceeds maximum segment size''), c, [])
             else if SND_NXT c \<ge> SND_UNA c + snd_max
             then (Returned (Some ''Error - send window is full, cannot send more data''), c, [])
             else
               then_do (send_packet c (prepare_data_packet c d))
                 (\<lambda>_ c. (Returned None, c\<lparr>SND_NXT := SND_NXT c + int (length d)\<rparr>, []))))"

text \<open>\<open>receive_packet\<close>: \<open>recvfrom(1024)\<close> hands over at most 1024 bytes of the arriving
  datagram together with its sender.\<close>

definition receive_packet :: "RDPConnection \<Rightarrow> byte list \<times> address \<Rightarrow> RDPPacket option result" where
  "receive_packet c arriving =
     (let packet_bytes = take 1024 (fst arriving);
          addr = snd arriving
      in if Some addr \<noteq> remote_address c then (Returned None, c, [])
         else (case decode packet_bytes of
                 Inl e \<Rightarrow> (Raised e, c, [])
               | Inr pkt \<Rightarrow> (Returned (Some pkt), c, [])))"

definition send_ack :: "RDPConnection \<Rightarrow> int option \<Rightarrow> unit result" where
  "send_ack c remote_port =
     (let ack_packet = (packet (conn_source_port c) remote_port (SND_NXT c) (RCV_CUR c) [])
                         \<lparr>ack := True\<rparr>
      in send_packet c ack_packet)"

definition send_syn_ack :: "RDPConnection \<Rightarrow> int option \<Rightarrow> unit result" where
  "send_syn_ack c remote_port =
     (let syn_ack_packet = (packet (conn_source_port c) remote_port (SND_ISS c) (RCV_CUR c) [])
                             \<lparr>syn := True, ack := True\<rparr>
      in send_packet c syn_ack_packet)"

definition reset_connection :: "RDPConnection \<Rightarrow> RDPConnection" where
  "reset_connection c =
     c\<lparr>state := CLOSED, SND_ISS := 0, SND_NXT := 0, SND_UNA := 0,
       RCV_CUR := 0, RCV_MAX := 0, data_buffer := []\<rparr>"

definition handle_syn_packet :: "RDPConnection \<Rightarrow> RDPPacket \<Rightarrow> unit result" where
  "handle_syn_packet c pkt =
     (if state c = LISTEN \<and> syn pkt then
        (let c = c\<lparr>RCV_CUR := seq_num pkt\<rparr>
         in then_do (send_syn_ack c (source_port pkt))
              (\<lambda>_ c. (Returned (), c\<lparr>state := SYN_RCVD\<rparr>, [])))
      else (Returned (), c, []))"

definition handle_syn_ack_packet :: "RDPConnection \<Rightarrow> RDPPacket \<Rightarrow> unit result" where
  "handle_syn_ack_packet c pkt =
     (if state c = SYN_SENT \<and> syn pkt \<and> ack pkt then
        (let c = c\<lparr>RCV_CUR := seq_num pkt\<rparr>
         in then_do (send_ack c (source_port pkt))
              (\<lambda>_ c. (Returned (), c\<lparr>state := OPEN\<rparr>, [])))
      else (Returned (), c, []))"

definition handle_ack_packet :: "RDPConnection \<Rightarrow> RDPPacket \<Rightarrow> unit result" where
  "handle_ack_packet c pkt =
     (if state c = SYN_RCVD \<and> ack pkt then (Returned (), c\<lparr>state := OPEN\<rparr>, [])
      else (Returned (), c, []))"

definition handle_data_packet :: "RDPConnection \<Rightarrow> RDPPacket \<Rightarrow> unit result" where
  "handle_data_packet c pkt =
     (if state c = OPEN \<and> data pkt \<noteq> [] then
        (let c = c\<lparr>data_buffer := data_buffer c @ data pkt\<rparr>
         in send_ack c (source_port pkt))
      else (Returned (), c, []))"

definition handle_rst_packet :: "RDPConnection \<Rightarrow> RDPPacket \<Rightarrow> unit result" where
  "handle_rst_packet c pkt =
     (if state c = OPEN \<and> rst pkt then
        (let c = c\<lparr>state := CLOSED\<rparr>
         in (Returned (), reset_connection c, []))
      else (Returned (), c, []))"

text \<open>
  \<open>process_packet\<close> begins with \<open>decoded_packet = packet.decode()\<close>. \<open>decode\<close> is a static
  method of one parameter, \<open>packet_bytes\<close>; looked up on an instance it is the plain
  function, so this call passes no argument at all. \<open>call_decode\<close> is the call of
  \<open>decode\<close> with a list of positional arguments: any number other than one raises
  \<open>TypeError\<close> before the body runs.
\<close>

fun call_decode :: "byte list list \<Rightarrow> exn + RDPPacket" where
  "call_decode [packet_bytes] = decode packet_bytes"
| "call_decode _ = Inl TypeError"

text \<open>The state dispatch of \<open>process_packet\<close>, from \<open>if self.state == 'LISTEN'\<close> to the
  \<open>return\<close>, on the packet that \<open>decoded_packet\<close> names.\<close>

definition dispatch :: "RDPConnection \<Rightarrow> RDPPacket \<Rightarrow> RDPPacket result" where
  "dispatch c decoded_packet =
     then_do
       (if state c = LISTEN then
          (if syn decoded_packet \<and> \<not> ack decoded_packet
           then handle_syn_packet c decoded_packet else (Returned (), c, []))
        else if state c = SYN_SENT then
          (if syn decoded_packet \<and> ack decoded_packet
           then handle_syn_ack_packet c decoded_packet else (Returned (), c, []))
        else if state c = SYN_RCVD then
          (if ack decoded_packet
           then handle_ack_packet c decoded_packet else (Returned (), c, []))
        else if state c = OPEN then
          (if data decoded_packet \<noteq> [] then handle_data_packet c decoded_packet
           else if rst decoded_packet then handle_rst_packet c decoded_packet
           else (Returned (), c, []))
        else (Returned (), c, []))
       (\<lambda>_ c. (Returned (packet (conn_source_port c) (conn_dest_port c) (SND_NXT c) (RCV_CUR c)
                            (map (\<lambda>ch. of_char ch) ''Test response'')), c, []))"

definition process_packet :: "RDPConnection \<Rightarrow> RDPPacket \<Rightarrow> RDPPacket result" where
  "process_packet c pkt =
     (case call_decode [] of
        Inl e \<Rightarrow> (Raised e, c, [])
      | Inr decoded_packet \<Rightarrow> dispatch c decoded_packet)"

text \<open>\<open>receive\<close> returns a string or the buffered bytes.\<close>

datatype received = Text string | Bytes "byte list"

definition receive :: "RDPConnection \<Rightarrow> byte list \<times> address \<Rightarrow> received result" where
  "receive c arriving =
     (if state c \<noteq> OPEN then (Returned (Text ''Error - connection not open''), c, [])
      else
        then_do (receive_packet c arriving)
          (\<lambda>incoming_packet c.
             (case incoming_packet of
                None \<Rightarrow> (Returned (Text ''No data to receive''), c, [])
              | Some pkt \<Rightarrow>
                  then_do (process_packet c pkt)
                    (\<lambda>_ c.
                       if data_buffer c \<noteq> []
                       then (Returned (Bytes (data_buffer c)), c\<lparr>data_buffer := []\<rparr>, [])
                       else (Returned (Text ''No new data received''), c, [])))))"

text \<open>\<open>str\<close> of an integer: its decimal digits, after a minus sign when it is
  negative.\<close>

function str_nat :: "nat \<Rightarrow> string" where
  "str_nat n = (if n < 10 then [char_of (48 + n)] else str_nat (n div 10) @ [char_of (48 + n mod 10)])"
  by pat_completeness auto
termination
  by (relation "measure id") auto

definition str_int :: "int \<Rightarrow> string" where
  "str_int i = (if i < 0 then CHR ''-'' # str_nat (nat (- i)) else str_nat (nat i))"

text \<open>\<open>listen\<close>: \<open>bind_error\<close> is \<open>None\<close> when \<open>socket.bind\<close> succeeds, and the text of
  the \<open>socket.error\<close> it raises otherwise, which the method catches and returns in its
  message.\<close>

definition listen :: "RDPConnection \<Rightarrow> int \<Rightarrow> string option \<Rightarrow> string result" where
  "listen c port bind_error =
     (case bind_error of
        None \<Rightarrow>
          (let c = c\<lparr>local_port := Some port\<rparr>;
               c = c\<lparr>state := LISTEN\<rparr>
           in (Returned (''Listening on port '' @ str_int port), c, []))
      | Some e \<Rightarrow>
          (Returned (''Error binding to port '' @ str_int port @ '': '' @ e), c, []))"

subsection \<open>Running a sequence of calls\<close>

text \<open>The calls a client of the class can make, and the connection each leaves behind
  (whether it returned or raised). \<open>Dispatch\<close> is the state dispatch of \<open>process_packet\<close>
  run on an already decoded packet.\<close>

datatype operation =
    Open int bool "int option" "int option" "int option" "int option"
  | Close
  | Send "byte list"
  | Receive "byte list \<times> address"
  | ReceivePacket "byte list \<times> address"
  | ProcessPacket RDPPacket
  | Dispatch RDPPacket
  | Reset
  | Listen int "string option"

fun run_op :: "RDPConnection \<Rightarrow> operation \<Rightarrow> RDPConnection" where
  "run_op c (Open iss passive lp rp sm rb) = fst (snd (open_connection c iss passive lp rp sm rb))"
| "run_op c Close = fst (snd (close c))"
| "run_op c (Send d) = fst (snd (send c d))"
| "run_op c (Receive arriving) = fst (snd (receive c arriving))"
| "run_op c (ReceivePacket arriving) = fst (snd (receive_packet c arriving))"
| "run_op c (ProcessPacket pkt) = fst (snd (process_packet c pkt))"
| "run_op c (Dispatch pkt) = fst (snd (dispatch c pkt))"
| "run_op c Reset = reset_connection c"
| "run_op c (Listen port bind_error) = fst (snd (listen c port bind_error))"

definition run_ops :: "RDPConnection \<Rightarrow> operation list \<Rightarrow> RDPConnection" where
  "run_ops c ops = foldl run_op c ops"

section \<open>The checksum in the words of the specification\<close>

text \<open>
  The specification describes the checksum as a one's-complement 16-bit sum: the header
  fields and the payload, read as big-endian 16-bit words after one trailing zero byte has
  been added to a payload of odd length, are summed; every carry out of bit 16 is folded
  back into the low 16 bits until none remains; the result is the complement of the low 16
  bits.
\<close>

definition pad_trailing :: "byte list \<Rightarrow> byte list" where
  "pad_trailing d = (if odd (length d) then d @ [0] else d)"

text \<open>The big-endian 16-bit words of a byte string. A last byte without a partner, which
  a padded payload never has, counts as the word of its own value.\<close>

fun be_words :: "byte list \<Rightarrow> int list" where
  "be_words [] = []"
| "be_words [a] = [uint a]"
| "be_words (a # b # rest) = (uint a * 256 + uint b) # be_words rest"

text \<open>Folding the carries: while the sum does not fit into 16 bits, what lies above bit
  16 is added to the low 16 bits.\<close>

function fold_carry :: "int \<Rightarrow> int" where
  "fold_carry s = (if s < 65536 then s else fold_carry (s div 65536 + s mod 65536))"
  by pat_completeness auto
termination
proof (relation "measure nat")
  fix s :: int
  assume "\<not> s < 65536"
  then have "1 \<le> s div 65536" by simp
  moreover have "s = 65536 * (s div 65536) + s mod 65536" by simp
  ultimately have "s div 65536 + s mod 65536 < s" by linarith
  moreover have "0 \<le> s div 65536 + s mod 65536"
    using \<open>1 \<le> s div 65536\<close> by (simp add: add_nonneg_nonneg)
  ultimately show "(s div 65536 + s mod 65536, s) \<in> measure nat" by simp
qed simp

definition ones_complement_checksum :: "int \<Rightarrow> int \<Rightarrow> int \<Rightarrow> int \<Rightarrow> int \<Rightarrow> int list \<Rightarrow> int" where
  "ones_complement_checksum sp dp len sq ak ws =
     65535 - fold_carry (sp + dp + len + sq + ak + sum_list ws) mod 65536"

text \<open>\<open>spec_checksum\<close> is the checksum of the specification, on the padded payload.\<close>

definition spec_checksum :: "int \<Rightarrow> int \<Rightarrow> int \<Rightarrow> int \<Rightarrow> byte list \<Rightarrow> int" where
  "spec_checksum sp dp sq ak d =
     ones_complement_checksum sp dp (int (length d)) sq ak (be_words (pad_trailing d))"

section \<open>Predicates and inputs used in the statements\<close>

text \<open>A packet that \<open>encode\<close> accepts: both ports present and 16-bit, sequence and
  acknowledgement numbers 32-bit, and a payload of at most 65535 bytes (\<open>compute_checksum\<close>
  packs the payload length with format \<open>H\<close>).\<close>

definition valid_packet :: "RDPPacket \<Rightarrow> bool" where
  "valid_packet p =
     ((case source_port p of None \<Rightarrow> False | Some n \<Rightarrow> 0 \<le> n \<and> n \<le> 65535) \<and>
      (case dest_port p of None \<Rightarrow> False | Some n \<Rightarrow> 0 \<le> n \<and> n \<le> 65535) \<and>
      0 \<le> seq_num p \<and> seq_num p \<le> 4294967295 \<and>
      0 \<le> ack_num p \<and> ack_num p \<le> 4294967295 \<and>
      length (data p) \<le> 65535)"



text \<open>The packets that \<open>send\<close> and \<open>send_rst\<close> are to transmit, field by field.\<close>

abbreviation data_packet_of :: "RDPConnection \<Rightarrow> byte list \<Rightarrow> RDPPacket" where
  "data_packet_of c d \<equiv>
     \<lparr>source_port = conn_source_port c, dest_port = conn_dest_port c, seq_num = SND_NXT c,
      ack_num = RCV_CUR c, data = d,
      syn = False, ack = False, eack = False, rst = False, nul = False\<rparr>"

abbreviation rst_packet_of :: "RDPConnection \<Rightarrow> RDPPacket" where
  "rst_packet_of c \<equiv>
     \<lparr>source_port = conn_source_port c, dest_port = conn_dest_port c, seq_num = SND_NXT c,
      ack_num = RCV_CUR c, data = [],
      syn = False, ack = False, eack = False, rst = True, nul = False\<rparr>"

text \<open>The send-side invariant of the data model.\<close>

definition snd_inv :: "RDPConnection \<Rightarrow> bool" where
  "snd_inv c = (SND_UNA c \<le> SND_NXT c)"

text \<open>Concrete inputs: a peer, a fresh connection to it, the same connection once open,
  and a 22-byte datagram whose length field announces five payload bytes that are not
  there.\<close>

definition peer :: address where
  "peer = (''127.0.0.1'', 12345)"

definition fresh_conn :: RDPConnection where
  "fresh_conn = init (Some peer) (Some 10000) (Some 12345)"

definition open_conn :: RDPConnection where
  "open_conn = fresh_conn\<lparr>state := OPEN, SND_ISS := 100, SND_NXT := 101, SND_UNA := 100,
                          SND_MAX := Some 10, RMAX_BUF := Some 1024\<rparr>"

definition short_datagram :: "byte list" where
  "short_datagram = [0x10, 9, 0, 1, 0, 2, 0, 0, 0, 5, 0, 0, 0, 3, 0, 0, 0, 4, 0, 0, 0, 0]"

text \<open>An RST packet from the peer without payload, and a data packet without flags.\<close>

definition rst_from_peer :: RDPPacket where
  "rst_from_peer = (packet (Some 12345) (Some 10000) 500 101 [])\<lparr>rst := True\<rparr>"

definition plain_packet :: RDPPacket where
  "plain_packet = packet (Some 1) (Some 2) 3 4 [1]"

text \<open>The connection that server.py builds and puts into LISTEN (no remote address, no
  remote port); an open connection without remote port; an open connection whose segment
  size admits 70000 bytes; a connection in SYN-RCVD and a SYN+ACK packet.\<close>

definition server_conn :: RDPConnection where
  "server_conn = (init None (Some 12345) None)\<lparr>local_port := Some 12345, state := LISTEN\<rparr>"

definition portless_conn :: RDPConnection where
  "portless_conn = open_conn\<lparr>conn_dest_port := None\<rparr>"

definition wide_conn :: RDPConnection where
  "wide_conn = open_conn\<lparr>SND_MAX := Some 70000\<rparr>"


definition syn_ack_packet :: RDPPacket where
  "syn_ack_packet = (packet (Some 12345) (Some 10000) 500 101 [])\<lparr>syn := True, ack := True\<rparr>"

text \<open>The bytes that \<open>encode\<close> produces for \<open>plain_packet\<close>.\<close>

definition plain_bytes :: "byte list" where
  "plain_bytes = [0x10, 9, 0, 1, 0, 2, 0, 0, 0, 1, 0, 0, 0, 3, 0, 0, 0, 4, 0, 0, 0xff, 0xf3, 1]"

text \<open>A packet without flags whose payload is the single byte 1.\<close>

definition odd_packet :: RDPPacket where
  "odd_packet = packet (Some 0) (Some 0) 0 0 [1]"

section \<open>Properties\<close>

subsection \<open>Auxiliary facts\<close>

lemma then_do_Returned:
  "then_do (Returned v, c, out) f = (case f v c of (r', c', out') \<Rightarrow> (r', c', out @ out'))"
  by (simp add: then_do_def)

lemma then_do_Raised: "then_do (Raised e, c, out) f = (Raised e, c, out)"
  by (simp add: then_do_def)

lemma and_ffff_range: "0 \<le> (k::int) AND 0xffff \<and> k AND 0xffff \<le> 65535"
  by (simp add: AND_upper2')

lemma compute_checksum_range:
  "compute_checksum p = Inr k \<Longrightarrow> 0 \<le> k \<and> k \<le> 65535"
  using and_ffff_range
  by (auto simp: compute_checksum_def Let_def split: sum.splits)

lemma compute_checksum_defined:
  "(\<exists>k. compute_checksum p = Inr k) = valid_packet p"
  by (auto simp: compute_checksum_def valid_packet_def pack_port_def pack_H_def pack_I_def Let_def
       split: sum.splits option.splits if_splits)

lemma control_word_range:
  "pack_H (push_bit 12 1 OR
           push_bit 8 (((((0 OR push_bit 3 (flag_int a)) OR push_bit 2 (flag_int b))
                          OR push_bit 1 (flag_int c)) OR flag_int d) OR push_bit 4 (flag_int e))
           OR 9)
   = Inr [(if e then 0x10 else 0) OR 0x10 OR (if a then 8 else 0) OR (if b then 4 else 0) OR
          (if c then 2 else 0) OR (if d then 1 else 0), 9]"
  by (cases a; cases b; cases c; cases d; cases e) (simp_all add: flag_int_def pack_H_def)

lemma encode_unfold:
  "encode p =
     (case compute_checksum p of
        Inl e \<Rightarrow> Inl e
      | Inr checksum \<Rightarrow>
          (case struct_pack [Inr [(if nul p then 0x10 else 0) OR 0x10 OR (if syn p then 8 else 0) OR
                                   (if ack p then 4 else 0) OR (if eack p then 2 else 0) OR
                                   (if rst p then 1 else 0), 9],
                             pack_port (source_port p), pack_port (dest_port p),
                             pack_I (int (length (data p))), pack_I (seq_num p),
                             pack_I (ack_num p), pack_I checksum] of
             Inl e \<Rightarrow> Inl e
           | Inr header \<Rightarrow> Inr (header @ data p)))"
  unfolding encode_def Let_def control_word_range ..

text \<open>\<open>encode\<close> returns bytes exactly for the valid packets; for every other packet it
  raises \<open>struct.error\<close>.\<close>

lemma encode_defined: "(\<exists>bs. encode p = Inr bs) = valid_packet p"
proof
  assume "\<exists>bs. encode p = Inr bs"
  then have "\<exists>k. compute_checksum p = Inr k"
    by (auto simp: encode_unfold split: sum.splits)
  then show "valid_packet p" by (simp add: compute_checksum_defined)
next
  assume v: "valid_packet p"
  then obtain k where k: "compute_checksum p = Inr k"
    using compute_checksum_defined by blast
  have "\<exists>ck. pack_I k = Inr ck"
    using compute_checksum_range [OF k] by (simp add: pack_I_def)
  moreover have "\<exists>a. pack_port (source_port p) = Inr a" "\<exists>a. pack_port (dest_port p) = Inr a"
    "\<exists>a. pack_I (int (length (data p))) = Inr a" "\<exists>a. pack_I (seq_num p) = Inr a"
    "\<exists>a. pack_I (ack_num p) = Inr a"
    using v by (auto simp: valid_packet_def pack_port_def pack_H_def pack_I_def split: option.splits)
  ultimately show "\<exists>bs. encode p = Inr bs"
    using k by (auto simp: encode_unfold)
qed

lemma send_packet_valid:
  "valid_packet pkt \<Longrightarrow> remote_address c = Some a \<Longrightarrow>
   \<exists>bs. encode pkt = Inr bs \<and> send_packet c pkt = (Returned (), c, [(bs, a)])"
  using encode_defined [of pkt] by (auto simp: send_packet_def)

lemma process_packet_raises: "process_packet c pkt = (Raised TypeError, c, [])"
  by (simp add: process_packet_def)

lemma struct_pack_error: "struct_pack fs = Inl e \<Longrightarrow> Inl e \<in> set fs"
  by (induction fs) (auto split: sum.splits)

lemma pack_H_error: "pack_H n = Inl e \<Longrightarrow> e = StructError"
  by (simp add: pack_H_def split: if_splits)

lemma pack_I_error: "pack_I n = Inl e \<Longrightarrow> e = StructError"
  by (simp add: pack_I_def split: if_splits)

lemma pack_port_error: "pack_port v = Inl e \<Longrightarrow> e = StructError"
  by (simp add: pack_port_def pack_H_error split: option.splits)

lemma compute_checksum_error: "compute_checksum p = Inl e \<Longrightarrow> e = StructError"
proof -
  assume a: "compute_checksum p = Inl e"
  then have "struct_pack [pack_port (source_port p), pack_port (dest_port p),
                          pack_H (int (length (data p))), pack_I (seq_num p), pack_I (ack_num p)] = Inl e"
    by (simp add: compute_checksum_def Let_def split: sum.splits)
  then have "Inl e \<in> set [pack_port (source_port p), pack_port (dest_port p),
                          pack_H (int (length (data p))), pack_I (seq_num p), pack_I (ack_num p)]"
    by (rule struct_pack_error)
  then show ?thesis
    using pack_port_error pack_H_error pack_I_error by (auto dest: sym)
qed

lemma encode_error: "encode p = Inl e \<Longrightarrow> e = StructError"
proof -
  assume a: "encode p = Inl e"
  show ?thesis
  proof (cases "compute_checksum p")
    case (Inl e')
    with a have "e' = e" by (simp add: encode_unfold)
    with Inl show ?thesis using compute_checksum_error by blast
  next
    case (Inr k)
    let ?fs = "[Inr [(if nul p then 0x10 else 0) OR 0x10 OR (if syn p then 8 else 0) OR
                                   (if ack p then 4 else 0) OR (if eack p then 2 else 0) OR
                                   (if rst p then 1 else 0), 9],
                             pack_port (source_port p), pack_port (dest_port p),
                             pack_I (int (length (data p))), pack_I (seq_num p),
                             pack_I (ack_num p), pack_I k]"
    from a Inr have "struct_pack ?fs = Inl e"
      by (simp add: encode_unfold split: sum.splits)
    then have "Inl e \<in> set ?fs" by (rule struct_pack_error)
    then show ?thesis
      using pack_port_error pack_I_error by (auto dest: sym)
  qed
qed

lemma encode_invalid: "\<not> valid_packet p \<Longrightarrow> encode p = Inl StructError"
proof -
  assume "\<not> valid_packet p"
  then have "\<not> (\<exists>bs. encode p = Inr bs)" by (simp add: encode_defined)
  then obtain e where "encode p = Inl e" by (cases "encode p") auto
  then show ?thesis using encode_error by blast
qed

lemma send_packet_invalid: "\<not> valid_packet pkt \<Longrightarrow> send_packet c pkt = (Raised StructError, c, [])"
  by (simp add: send_packet_def encode_invalid)

lemma send_packet_no_peer:
  "valid_packet pkt \<Longrightarrow> remote_address c = None \<Longrightarrow> send_packet c pkt = (Raised TypeError, c, [])"
  using encode_defined [of pkt] by (auto simp: send_packet_def)





lemma decode_short: "length bs < 22 \<Longrightarrow> decode bs = Inl StructError"
  by (simp add: decode_def)

lemma decode_long: "22 \<le> length bs \<Longrightarrow> \<exists>p. decode bs = Inr p"
  by (simp add: decode_def Let_def)

lemma decode_checksum_irrelevant:
  assumes "length hdr = 18" "length ck = 4" "length ck' = 4"
  shows "decode (hdr @ ck @ payload) = decode (hdr @ ck' @ payload)"
  using assms by (simp add: decode_def bytes_slice_def Let_def)

lemma send_packet_conn: "fst (snd (send_packet c pkt)) = c"
  by (simp add: send_packet_def split: sum.splits option.splits)

lemma then_do_pres:
  assumes "Q (fst (snd r))" and "\<And>v c'. Q c' \<Longrightarrow> Q (fst (snd (f v c')))"
  shows "Q (fst (snd (then_do r f)))"
proof (cases r)
  case (fields x c out)
  show ?thesis
  proof (cases x)
    case (Returned v)
    with fields assms(1) assms(2) [of c v] show ?thesis
      by (cases "f v c") (simp add: then_do_def)
  next
    case (Raised e)
    with fields assms(1) show ?thesis by (simp add: then_do_def)
  qed
qed

subsection \<open>Decoding\<close>

text \<open>
  C3, as the code has it: \<open>decode\<close> raises (\<open>struct.error\<close>, the framing error) exactly when
  fewer than 22 bytes are present. On every other input it returns a packet whose payload
  is everything after the 22nd byte; neither the length field nor the checksum field of
  the header can make it fail.
\<close>

theorem decode_fails_iff_short:
  "(decode bs = Inl StructError) = (length bs < 22) \<and>
   (\<exists>p. decode bs = Inr p \<and> data p = drop 22 bs) = (22 \<le> length bs)"
  by (auto simp: decode_def Let_def)

text \<open>
  C3 as stated fails: the 22 bytes of \<open>short_datagram\<close> announce a payload of five bytes
  and carry none, and \<open>decode\<close> does not fail on them.
\<close>

theorem decode_ignores_data_length:
  "\<not> ((decode short_datagram = Inl StructError) =
       (length short_datagram < 22 \<or>
        from_bytes_big (bytes_slice 6 10 short_datagram) \<noteq> int (length short_datagram) - 22))"
  by (simp add: short_datagram_def decode_def bytes_slice_def from_bytes_big_def)

subsection \<open>Opening\<close>

text \<open>
  C10: when \<open>open\<close> is called in CLOSED and the needed port is missing (a passive open
  without local port, an active open without remote port), the error string is returned
  by a connection that already holds the fresh SND_ISS, SND_NXT = SND_ISS + 1,
  SND_UNA = SND_ISS, SND_MAX and RMAX_BUF; its state is still CLOSED and nothing is sent.
\<close>

theorem open_missing_port_not_atomic:
  assumes "state c = CLOSED"
    and "(passive \<and> lp = None) \<or> (\<not> passive \<and> rp = None)"
  shows "open_connection c iss passive lp rp sm rb =
           (Returned (if passive then ''Error - local port not specified''
                      else ''Error - remote port not specified''),
            c\<lparr>SND_ISS := iss, SND_NXT := iss + 1, SND_UNA := iss,
              SND_MAX := Some (case sm of Some m \<Rightarrow> m | None \<Rightarrow> 10),
              RMAX_BUF := Some (case rb of Some m \<Rightarrow> m | None \<Rightarrow> 1024)\<rparr>, [])
         \<and> state (fst (snd (open_connection c iss passive lp rp sm rb))) = CLOSED"
  using assms by (auto simp: open_connection_def then_do_Returned)

theorem open_missing_port_not_atomic_witness:
  "open_connection fresh_conn 4711 True None (Some 9000) None None =
     (Returned ''Error - local port not specified'',
      fresh_conn\<lparr>SND_ISS := 4711, SND_NXT := 4712, SND_UNA := 4711,
                 SND_MAX := Some 10, RMAX_BUF := Some 1024\<rparr>, []) \<and>
   open_connection fresh_conn 4711 False None None (Some 64) None =
     (Returned ''Error - remote port not specified'',
      fresh_conn\<lparr>SND_ISS := 4711, SND_NXT := 4712, SND_UNA := 4711,
                 SND_MAX := Some 64, RMAX_BUF := Some 1024\<rparr>, [])"
proof -
  have closed: "state fresh_conn = CLOSED"
    by (simp add: fresh_conn_def init_def)
  show ?thesis
    using open_missing_port_not_atomic [OF closed, of True None "Some 9000" 4711 None None]
      open_missing_port_not_atomic [OF closed, of False None None 4711 "Some 64" None]
    by simp
qed

subsection \<open>Closing\<close>

lemma send_rst_packet: "send_rst c = send_packet c (rst_packet_of c)"
  by (simp add: send_rst_def packet_def)

text \<open>
  C6, as the code has it: \<open>close\<close> in CLOSED or CLOSE-WAIT returns the error string and
  leaves the connection as it was, sending nothing. In OPEN, LISTEN, SYN-RCVD and SYN-SENT
  it first builds the RST packet (sequence number SND_NXT, acknowledgement number RCV_CUR,
  no payload, RST the only flag). When that packet is valid and the connection has a remote
  address, exactly one datagram, its encoding, goes to the transport, and the state becomes
  CLOSE-WAIT from OPEN and CLOSED from the other three. When the packet is not valid (a
  port missing or out of range, a counter beyond 32 bits) \<open>close\<close> raises \<open>struct.error\<close>,
  and when the remote address is missing it raises \<open>TypeError\<close>; the connection keeps its
  state and nothing is sent.
\<close>

theorem close_behaviour:
  "(state c \<in> {CLOSED, CLOSE_WAIT} \<longrightarrow>
      close c = (Returned ''Error - connection not open or already closing'', c, [])) \<and>
   (state c \<in> {OPEN, LISTEN, SYN_RCVD, SYN_SENT} \<longrightarrow>
      (valid_packet (rst_packet_of c) \<and> remote_address c = Some a \<longrightarrow>
         (\<exists>bs. encode (rst_packet_of c) = Inr bs \<and>
               close c =
                 (Returned (if state c = OPEN
                            then ''Connection set to CLOSE-WAIT from state: OPEN''
                            else ''Connection closed from state: LISTEN/SYN-RCVD/SYN-SENT''),
                  c\<lparr>state := (if state c = OPEN then CLOSE_WAIT else CLOSED)\<rparr>, [(bs, a)]))) \<and>
      (\<not> valid_packet (rst_packet_of c) \<longrightarrow> close c = (Raised StructError, c, [])) \<and>
      (valid_packet (rst_packet_of c) \<and> remote_address c = None \<longrightarrow>
         close c = (Raised TypeError, c, [])))"
proof (intro conjI impI)
  assume "state c \<in> {CLOSED, CLOSE_WAIT}"
  then show "close c = (Returned ''Error - connection not open or already closing'', c, [])"
    by (auto simp: close_def)
next
  assume st: "state c \<in> {OPEN, LISTEN, SYN_RCVD, SYN_SENT}"
    and h: "valid_packet (rst_packet_of c) \<and> remote_address c = Some a"
  then obtain bs where bs: "encode (rst_packet_of c) = Inr bs"
    "send_packet c (rst_packet_of c) = (Returned (), c, [(bs, a)])"
    using send_packet_valid [of "rst_packet_of c" c a] by blast
  with st show "\<exists>bs. encode (rst_packet_of c) = Inr bs \<and>
               close c =
                 (Returned (if state c = OPEN
                            then ''Connection set to CLOSE-WAIT from state: OPEN''
                            else ''Connection closed from state: LISTEN/SYN-RCVD/SYN-SENT''),
                  c\<lparr>state := (if state c = OPEN then CLOSE_WAIT else CLOSED)\<rparr>, [(bs, a)])"
    by (auto simp: close_def send_rst_packet then_do_Returned)
next
  assume st: "state c \<in> {OPEN, LISTEN, SYN_RCVD, SYN_SENT}"
    and h: "\<not> valid_packet (rst_packet_of c)"
  then have "send_packet c (rst_packet_of c) = (Raised StructError, c, [])"
    by (simp add: send_packet_invalid)
  with st show "close c = (Raised StructError, c, [])"
    by (auto simp: close_def send_rst_packet then_do_Raised)
next
  assume st: "state c \<in> {OPEN, LISTEN, SYN_RCVD, SYN_SENT}"
    and h: "valid_packet (rst_packet_of c) \<and> remote_address c = None"
  then have "send_packet c (rst_packet_of c) = (Raised TypeError, c, [])"
    by (simp add: send_packet_no_peer)
  with st show "close c = (Raised TypeError, c, [])"
    by (auto simp: close_def send_rst_packet then_do_Raised)
qed

theorem close_behaviour_witness:
  "close fresh_conn = (Returned ''Error - connection not open or already closing'', fresh_conn, []) \<and>
   (\<exists>bs. encode \<lparr>source_port = Some 10000, dest_port = Some 12345, seq_num = 101, ack_num = 0,
                  data = [], syn = False, ack = False, eack = False, rst = True, nul = False\<rparr>
           = Inr bs \<and>
         close open_conn = (Returned ''Connection set to CLOSE-WAIT from state: OPEN'',
                            open_conn\<lparr>state := CLOSE_WAIT\<rparr>, [(bs, peer)])) \<and>
   (\<exists>bs. encode \<lparr>source_port = Some 10000, dest_port = Some 12345, seq_num = 0, ack_num = 0,
                  data = [], syn = False, ack = False, eack = False, rst = True, nul = False\<rparr>
           = Inr bs \<and>
         close (fresh_conn\<lparr>state := LISTEN\<rparr>) =
           (Returned ''Connection closed from state: LISTEN/SYN-RCVD/SYN-SENT'',
            fresh_conn\<lparr>state := CLOSED\<rparr>, [(bs, peer)])) \<and>
   close portless_conn = (Raised StructError, portless_conn, []) \<and>
   close (open_conn\<lparr>remote_address := None\<rparr>) =
     (Raised TypeError, open_conn\<lparr>remote_address := None\<rparr>, [])"
proof -
  have v: "conn_source_port open_conn = Some 10000" "conn_dest_port open_conn = Some 12345"
    "SND_NXT open_conn = 101" "RCV_CUR open_conn = 0" "state open_conn = OPEN"
    "remote_address open_conn = Some peer"
    "conn_source_port fresh_conn = Some 10000" "conn_dest_port fresh_conn = Some 12345"
    "SND_NXT fresh_conn = 0" "RCV_CUR fresh_conn = 0" "state fresh_conn = CLOSED"
    "remote_address fresh_conn = Some peer"
    by (simp_all add: open_conn_def fresh_conn_def init_def)
  have 1: "close fresh_conn =
             (Returned ''Error - connection not open or already closing'', fresh_conn, [])"
    using close_behaviour [of fresh_conn] by (simp add: v)
  have 2: "\<exists>bs. encode \<lparr>source_port = Some 10000, dest_port = Some 12345, seq_num = 101,
                  ack_num = 0, data = [], syn = False, ack = False, eack = False, rst = True,
                  nul = False\<rparr> = Inr bs \<and>
         close open_conn = (Returned ''Connection set to CLOSE-WAIT from state: OPEN'',
                            open_conn\<lparr>state := CLOSE_WAIT\<rparr>, [(bs, peer)])"
    using close_behaviour [of open_conn peer] by (simp add: v valid_packet_def)
  have 3: "\<exists>bs. encode \<lparr>source_port = Some 10000, dest_port = Some 12345, seq_num = 0,
                  ack_num = 0, data = [], syn = False, ack = False, eack = False, rst = True,
                  nul = False\<rparr> = Inr bs \<and>
         close (fresh_conn\<lparr>state := LISTEN\<rparr>) =
           (Returned ''Connection closed from state: LISTEN/SYN-RCVD/SYN-SENT'',
            fresh_conn\<lparr>state := CLOSED\<rparr>, [(bs, peer)])"
    using close_behaviour [of "fresh_conn\<lparr>state := LISTEN\<rparr>" peer]
    by (simp add: v valid_packet_def)
  have 4: "close portless_conn = (Raised StructError, portless_conn, [])"
    using close_behaviour [of portless_conn]
    by (simp add: portless_conn_def v valid_packet_def)
  have 5: "close (open_conn\<lparr>remote_address := None\<rparr>) =
             (Raised TypeError, open_conn\<lparr>remote_address := None\<rparr>, [])"
    using close_behaviour [of "open_conn\<lparr>remote_address := None\<rparr>"]
    by (simp add: v valid_packet_def)
  from 1 2 3 4 5 show ?thesis by blast
qed

text \<open>
  C6 as stated fails: the listening connection of server.py has no remote port, its RST
  packet cannot be encoded, and \<open>close\<close> raises \<open>struct.error\<close>; the connection is still in
  LISTEN and no RST has been sent.
\<close>

theorem close_listener_raises:
  "state server_conn = LISTEN \<and> close server_conn = (Raised StructError, server_conn, [])"
proof -
  have st: "state server_conn = LISTEN"
    by (simp add: server_conn_def)
  have "\<not> valid_packet (rst_packet_of server_conn)"
    by (simp add: server_conn_def init_def valid_packet_def)
  then have "send_packet server_conn (rst_packet_of server_conn) =
               (Raised StructError, server_conn, [])"
    by (rule send_packet_invalid)
  with st show ?thesis
    by (simp add: close_def send_rst_packet then_do_Raised)
qed

subsection \<open>Sending\<close>

lemma prepare_data_packet_fields: "prepare_data_packet c d = data_packet_of c d"
  by (simp add: prepare_data_packet_def packet_def)

text \<open>
  C4, as the code has it: \<open>send\<close> returns the not-open error when the state is not OPEN;
  in OPEN, with SND_MAX assigned by \<open>open\<close>, it returns the segment-too-large error when
  the data is longer than SND_MAX, else the window-full error when
  SND_NXT \<ge> SND_UNA + SND_MAX; each time the connection is unchanged and nothing is sent.
  Otherwise it builds the packet with sequence number SND_NXT, acknowledgement number
  RCV_CUR, no flag and the data as payload. When that packet is valid and the connection
  has a remote address, exactly one datagram, its encoding, goes to the transport and
  SND_NXT advances by the length of the data. When the packet is not valid (a port missing
  or out of range, a counter beyond 32 bits, more than 65535 payload bytes) \<open>send\<close> raises
  \<open>struct.error\<close>, and when the remote address is missing it raises \<open>TypeError\<close>; when
  SND_MAX was never assigned it raises \<open>AttributeError\<close>. A call that raises leaves the
  connection unchanged, SND_NXT included, and sends nothing.
\<close>

theorem send_behaviour:
  "(state c \<noteq> OPEN \<longrightarrow> send c d = (Returned (Some ''Error - connection not open''), c, [])) \<and>
   (state c = OPEN \<and> SND_MAX c = None \<longrightarrow> send c d = (Raised AttributeError, c, [])) \<and>
   (state c = OPEN \<and> SND_MAX c = Some m \<and> int (length d) > m \<longrightarrow>
      send c d = (Returned (Some ''Error - data size exceeds maximum segment size''), c, [])) \<and>
   (state c = OPEN \<and> SND_MAX c = Some m \<and> int (length d) \<le> m \<and> SND_NXT c \<ge> SND_UNA c + m \<longrightarrow>
      send c d = (Returned (Some ''Error - send window is full, cannot send more data''), c, [])) \<and>
   (state c = OPEN \<and> SND_MAX c = Some m \<and> int (length d) \<le> m \<and> SND_NXT c < SND_UNA c + m \<longrightarrow>
      (valid_packet (data_packet_of c d) \<and> remote_address c = Some a \<longrightarrow>
         (\<exists>bs. encode (data_packet_of c d) = Inr bs \<and>
               send c d = (Returned None, c\<lparr>SND_NXT := SND_NXT c + int (length d)\<rparr>, [(bs, a)]))) \<and>
      (\<not> valid_packet (data_packet_of c d) \<longrightarrow> send c d = (Raised StructError, c, [])) \<and>
      (valid_packet (data_packet_of c d) \<and> remote_address c = None \<longrightarrow>
         send c d = (Raised TypeError, c, [])))"
proof (intro conjI impI)
  assume g: "state c = OPEN \<and> SND_MAX c = Some m \<and> int (length d) \<le> m \<and> SND_NXT c < SND_UNA c + m"
    and h: "valid_packet (data_packet_of c d) \<and> remote_address c = Some a"
  then obtain bs where bs: "encode (data_packet_of c d) = Inr bs"
    "send_packet c (data_packet_of c d) = (Returned (), c, [(bs, a)])"
    using send_packet_valid [of "data_packet_of c d" c a] by blast
  with g show "\<exists>bs. encode (data_packet_of c d) = Inr bs \<and>
               send c d = (Returned None, c\<lparr>SND_NXT := SND_NXT c + int (length d)\<rparr>, [(bs, a)])"
    by (simp add: send_def prepare_data_packet_fields then_do_Returned)
next
  assume g: "state c = OPEN \<and> SND_MAX c = Some m \<and> int (length d) \<le> m \<and> SND_NXT c < SND_UNA c + m"
    and h: "\<not> valid_packet (data_packet_of c d)"
  then have "send_packet c (data_packet_of c d) = (Raised StructError, c, [])"
    by (simp add: send_packet_invalid)
  with g show "send c d = (Raised StructError, c, [])"
    by (simp add: send_def prepare_data_packet_fields then_do_Raised)
next
  assume g: "state c = OPEN \<and> SND_MAX c = Some m \<and> int (length d) \<le> m \<and> SND_NXT c < SND_UNA c + m"
    and h: "valid_packet (data_packet_of c d) \<and> remote_address c = None"
  then have "send_packet c (data_packet_of c d) = (Raised TypeError, c, [])"
    by (simp add: send_packet_no_peer)
  with g show "send c d = (Raised TypeError, c, [])"
    by (simp add: send_def prepare_data_packet_fields then_do_Raised)
qed (auto simp: send_def)

theorem send_behaviour_witness:
  "send fresh_conn [1, 2, 3] = (Returned (Some ''Error - connection not open''), fresh_conn, []) \<and>
   send (open_conn\<lparr>SND_MAX := None\<rparr>) [1, 2, 3] =
     (Raised AttributeError, open_conn\<lparr>SND_MAX := None\<rparr>, []) \<and>
   send open_conn (replicate 11 0) =
     (Returned (Some ''Error - data size exceeds maximum segment size''), open_conn, []) \<and>
   send (open_conn\<lparr>SND_NXT := 110\<rparr>) [1, 2, 3] =
     (Returned (Some ''Error - send window is full, cannot send more data''),
      open_conn\<lparr>SND_NXT := 110\<rparr>, []) \<and>
   (\<exists>bs. encode \<lparr>source_port = Some 10000, dest_port = Some 12345, seq_num = 101, ack_num = 0,
                  data = [1, 2, 3], syn = False, ack = False, eack = False, rst = False,
                  nul = False\<rparr> = Inr bs \<and>
         send open_conn [1, 2, 3] = (Returned None, open_conn\<lparr>SND_NXT := 104\<rparr>, [(bs, peer)])) \<and>
   send portless_conn [1, 2, 3] = (Raised StructError, portless_conn, []) \<and>
   send (open_conn\<lparr>remote_address := None\<rparr>) [1, 2, 3] =
     (Raised TypeError, open_conn\<lparr>remote_address := None\<rparr>, [])"
proof -
  have v: "conn_source_port open_conn = Some 10000" "conn_dest_port open_conn = Some 12345"
    "SND_NXT open_conn = 101" "RCV_CUR open_conn = 0" "SND_UNA open_conn = 100"
    "state open_conn = OPEN" "SND_MAX open_conn = Some 10" "remote_address open_conn = Some peer"
    "state fresh_conn = CLOSED"
    by (simp_all add: open_conn_def fresh_conn_def init_def)
  have 1: "send fresh_conn [1, 2, 3] =
             (Returned (Some ''Error - connection not open''), fresh_conn, [])"
    using send_behaviour [of fresh_conn "[1, 2, 3]"] by (simp add: v)
  have 2: "send (open_conn\<lparr>SND_MAX := None\<rparr>) [1, 2, 3] =
             (Raised AttributeError, open_conn\<lparr>SND_MAX := None\<rparr>, [])"
    using send_behaviour [of "open_conn\<lparr>SND_MAX := None\<rparr>" "[1, 2, 3]"] by (simp add: v)
  have 3: "send open_conn (replicate 11 0) =
     (Returned (Some ''Error - data size exceeds maximum segment size''), open_conn, [])"
    using send_behaviour [of open_conn "replicate 11 0" 10] by (simp add: v)
  have 4: "send (open_conn\<lparr>SND_NXT := 110\<rparr>) [1, 2, 3] =
     (Returned (Some ''Error - send window is full, cannot send more data''),
      open_conn\<lparr>SND_NXT := 110\<rparr>, [])"
    using send_behaviour [of "open_conn\<lparr>SND_NXT := 110\<rparr>" "[1, 2, 3]" 10] by (simp add: v)
  have 5: "\<exists>bs. encode \<lparr>source_port = Some 10000, dest_port = Some 12345, seq_num = 101,
                  ack_num = 0, data = [1, 2, 3], syn = False, ack = False, eack = False,
                  rst = False, nul = False\<rparr> = Inr bs \<and>
         send open_conn [1, 2, 3] = (Returned None, open_conn\<lparr>SND_NXT := 104\<rparr>, [(bs, peer)])"
    using send_behaviour [of open_conn "[1, 2, 3]" 10 peer] by (simp add: v valid_packet_def)
  have 6: "send portless_conn [1, 2, 3] = (Raised StructError, portless_conn, [])"
    using send_behaviour [of portless_conn "[1, 2, 3]" 10]
    by (simp add: portless_conn_def v valid_packet_def)
  have 7: "send (open_conn\<lparr>remote_address := None\<rparr>) [1, 2, 3] =
             (Raised TypeError, open_conn\<lparr>remote_address := None\<rparr>, [])"
    using send_behaviour [of "open_conn\<lparr>remote_address := None\<rparr>" "[1, 2, 3]" 10]
    by (simp add: v valid_packet_def)
  from 1 2 3 4 5 6 7 show ?thesis by blast
qed

text \<open>
  C4 as stated fails: on an open connection whose segment size admits them, 65536 bytes
  pass all three checks, yet nothing is transmitted and SND_NXT stays: \<open>send\<close> raises
  \<open>struct.error\<close>, because \<open>compute_checksum\<close> packs the payload length into 16 bits. The
  same happens on an open connection that has no remote port, as the one server.py builds.
\<close>

theorem send_raises_struct_error:
  "state wide_conn = OPEN \<and> SND_MAX wide_conn = Some 70000 \<and>
   int (length (replicate 65536 (0 :: byte))) \<le> 70000 \<and>
   SND_NXT wide_conn < SND_UNA wide_conn + 70000 \<and>
   send wide_conn (replicate 65536 0) = (Raised StructError, wide_conn, []) \<and>
   send portless_conn [1, 2, 3] = (Raised StructError, portless_conn, [])"
proof -
  have v: "state wide_conn = OPEN" "SND_MAX wide_conn = Some 70000" "SND_NXT wide_conn = 101"
    "SND_UNA wide_conn = 100"
    "state portless_conn = OPEN" "SND_MAX portless_conn = Some 10" "SND_NXT portless_conn = 101"
    "SND_UNA portless_conn = 100" "conn_dest_port portless_conn = None"
    by (simp_all add: wide_conn_def portless_conn_def open_conn_def fresh_conn_def init_def)
  have "\<not> valid_packet (data_packet_of wide_conn (replicate 65536 0))"
    by (simp add: valid_packet_def)
  then have "send_packet wide_conn (data_packet_of wide_conn (replicate 65536 0)) =
               (Raised StructError, wide_conn, [])"
    by (rule send_packet_invalid)
  then have 1: "send wide_conn (replicate 65536 0) = (Raised StructError, wide_conn, [])"
    by (simp add: send_def prepare_data_packet_fields then_do_Raised v)
  have "\<not> valid_packet (data_packet_of portless_conn [1, 2, 3])"
    by (simp add: valid_packet_def v)
  then have "send_packet portless_conn (data_packet_of portless_conn [1, 2, 3]) =
               (Raised StructError, portless_conn, [])"
    by (rule send_packet_invalid)
  then have 2: "send portless_conn [1, 2, 3] = (Raised StructError, portless_conn, [])"
    by (simp add: send_def prepare_data_packet_fields then_do_Raised v)
  from 1 2 v show ?thesis by simp
qed

subsection \<open>Inbound packets\<close>

text \<open>What the state dispatch does with an RST without payload in OPEN, once it is
  reached: the connection is CLOSED, its counters are zero and its buffer is empty.\<close>

lemma dispatch_rst:
  "state c = OPEN \<Longrightarrow> rst pkt \<Longrightarrow> data pkt = [] \<Longrightarrow>
   dispatch c pkt =
     (Returned (packet (conn_source_port c) (conn_dest_port c) 0 0
                  (map (\<lambda>ch. of_char ch) ''Test response'')),
      c\<lparr>state := CLOSED, SND_ISS := 0, SND_NXT := 0, SND_UNA := 0,
        RCV_CUR := 0, RCV_MAX := 0, data_buffer := []\<rparr>, [])"
  by (simp add: dispatch_def then_do_Returned handle_rst_packet_def reset_connection_def)

text \<open>
  C5, at an OPEN connection and an RST packet from its peer: \<open>process_packet\<close> raises
  \<open>TypeError\<close> at its first statement, \<open>packet.decode()\<close>, and the connection is still
  OPEN with its counters as they were.
\<close>

theorem process_rst_raises:
  "state open_conn = OPEN \<and> rst rst_from_peer \<and> data rst_from_peer = [] \<and>
   process_packet open_conn rst_from_peer = (Raised TypeError, open_conn, [])"
  by (simp add: process_packet_def open_conn_def rst_from_peer_def packet_def)




subsection \<open>Receiving\<close>

lemma receive_short_from_peer:
  assumes "state c = OPEN" "remote_address c = Some addr" "length bs < 22"
  shows "receive c (bs, addr) = (Raised StructError, c, [])"
proof -
  have "decode (take 1024 bs) = Inl StructError"
    using assms(3) by (simp add: decode_short)
  then show ?thesis
    using assms by (simp add: receive_def receive_packet_def then_do_Raised)
qed

lemma receive_long_from_peer:
  assumes "state c = OPEN" "remote_address c = Some addr" "22 \<le> length bs"
  shows "receive c (bs, addr) = (Raised TypeError, c, [])"
proof -
  obtain p where "decode (take 1024 bs) = Inr p"
    using assms(3) decode_long [of "take 1024 bs"] by auto
  then show ?thesis
    using assms
    by (simp add: receive_def receive_packet_def then_do_Returned then_do_Raised
          process_packet_raises)
qed

text \<open>
  C8, as the code has it: only a datagram whose sender is not the connection's remote
  address is dropped silently (\<open>receive_packet\<close> returns \<open>None\<close>, \<open>receive\<close> returns "No
  data to receive", the connection is unchanged). A datagram from the peer with fewer than
  22 bytes makes \<open>receive_packet\<close>, and \<open>receive\<close> in OPEN, raise \<open>struct.error\<close> to the
  caller. The checksum is not verified: the four checksum bytes have no influence on what
  \<open>decode\<close> returns.
\<close>

theorem inbound_datagram_handling:
  "(Some addr \<noteq> remote_address c \<longrightarrow>
      receive_packet c (bs, addr) = (Returned None, c, []) \<and>
      (state c = OPEN \<longrightarrow>
         receive c (bs, addr) = (Returned (Text ''No data to receive''), c, []))) \<and>
   (Some addr = remote_address c \<and> length bs < 22 \<longrightarrow>
      receive_packet c (bs, addr) = (Raised StructError, c, []) \<and>
      (state c = OPEN \<longrightarrow> receive c (bs, addr) = (Raised StructError, c, []))) \<and>
   (length hdr = 18 \<and> length ck = 4 \<and> length ck' = 4 \<longrightarrow>
      decode (hdr @ ck @ payload) = decode (hdr @ ck' @ payload))"
proof (intro conjI impI)
  assume "length hdr = 18 \<and> length ck = 4 \<and> length ck' = 4"
  then show "decode (hdr @ ck @ payload) = decode (hdr @ ck' @ payload)"
    by (simp add: decode_checksum_irrelevant)
next
  assume h: "Some addr = remote_address c \<and> length bs < 22"
  then have d: "decode (take 1024 bs) = Inl StructError"
    by (simp add: decode_def)
  with h show rp: "receive_packet c (bs, addr) = (Raised StructError, c, [])"
    by (simp add: receive_packet_def)
  assume "state c = OPEN"
  with rp show "receive c (bs, addr) = (Raised StructError, c, [])"
    by (simp add: receive_def then_do_Raised)
qed (simp_all add: receive_def receive_packet_def then_do_Returned)

theorem inbound_datagram_handling_witness:
  "receive open_conn ([1, 2, 3], (''10.0.0.9'', 4000)) =
     (Returned (Text ''No data to receive''), open_conn, []) \<and>
   receive open_conn ([1, 2, 3], peer) = (Raised StructError, open_conn, []) \<and>
   decode (take 18 short_datagram @ [0, 0, 0, 0] @ [7]) =
     decode (take 18 short_datagram @ [0, 0, 0xff, 0xec] @ [7])"
  using inbound_datagram_handling [of "(''10.0.0.9'', 4000)" open_conn "[1, 2, 3]"
          "take 18 short_datagram" "[0, 0, 0, 0]" "[0, 0, 0xff, 0xec]" "[7]"]
    inbound_datagram_handling [of peer open_conn "[1, 2, 3]"
          "take 18 short_datagram" "[0, 0, 0, 0]" "[0, 0, 0xff, 0xec]" "[7]"]
  by (simp add: open_conn_def fresh_conn_def init_def peer_def short_datagram_def)

text \<open>
  C8 as stated fails: an empty datagram from the peer makes \<open>receive\<close> raise
  \<open>struct.error\<close>, and a datagram of 22 bytes whose checksum field is wrong is not dropped
  either.
\<close>

theorem receive_surfaces_errors:
  "receive open_conn ([], peer) = (Raised StructError, open_conn, []) \<and>
   receive open_conn (short_datagram, peer) = (Raised TypeError, open_conn, [])"
proof -
  have "state open_conn = OPEN" "remote_address open_conn = Some peer"
    by (simp_all add: open_conn_def fresh_conn_def init_def)
  moreover have "22 \<le> length short_datagram"
    by (simp add: short_datagram_def)
  ultimately show ?thesis
    by (simp add: receive_short_from_peer receive_long_from_peer)
qed

subsection \<open>The send-side invariant\<close>

lemmas inv_then_do = then_do_pres [where Q = snd_inv]

lemma snd_inv_update [simp]:
  "snd_inv (c\<lparr>state := s\<rparr>) = snd_inv c"
  "snd_inv (c\<lparr>conn_source_port := sp\<rparr>) = snd_inv c"
  "snd_inv (c\<lparr>data_buffer := buf\<rparr>) = snd_inv c"
  "snd_inv (c\<lparr>RCV_CUR := r\<rparr>) = snd_inv c"
  "snd_inv (c\<lparr>local_port := lp\<rparr>) = snd_inv c"
  by (simp_all add: snd_inv_def)

lemma snd_inv_open [simp]:
  "snd_inv (c\<lparr>SND_ISS := iss, SND_NXT := iss + 1, SND_UNA := iss, SND_MAX := x, RMAX_BUF := y\<rparr>)"
  by (simp add: snd_inv_def)

lemma snd_inv_advance [simp]: "snd_inv c \<Longrightarrow> snd_inv (c\<lparr>SND_NXT := SND_NXT c + int n\<rparr>)"
  by (simp add: snd_inv_def)

lemma snd_inv_reset [simp]: "snd_inv (reset_connection c)"
  by (simp add: snd_inv_def reset_connection_def)

lemma inv_open:
  assumes "snd_inv c"
  shows "snd_inv (fst (snd (open_connection c iss passive lp rp sm rb)))"
proof (cases "state c = CLOSED")
  case False
  with assms show ?thesis by (simp add: open_connection_def)
next
  case True
  then show ?thesis
    unfolding open_connection_def Let_def
    by (auto simp: allocate_local_port_def send_packet_conn split: option.splits
          intro!: inv_then_do)
qed

lemma inv_close: "snd_inv c \<Longrightarrow> snd_inv (fst (snd (close c)))"
  unfolding close_def send_rst_def Let_def
  by (auto simp: send_packet_conn intro!: inv_then_do)

lemma inv_send: "snd_inv c \<Longrightarrow> snd_inv (fst (snd (send c d)))"
  unfolding send_def
  by (auto simp: send_packet_conn split: option.splits intro!: inv_then_do)

lemma inv_receive_packet: "snd_inv c \<Longrightarrow> snd_inv (fst (snd (receive_packet c arriving)))"
  by (simp add: receive_packet_def Let_def split: sum.splits)

lemma inv_process_packet: "snd_inv c \<Longrightarrow> snd_inv (fst (snd (process_packet c pkt)))"
  by (simp add: process_packet_def)

lemma inv_receive: "snd_inv c \<Longrightarrow> snd_inv (fst (snd (receive c arriving)))"
  unfolding receive_def
  by (auto simp: inv_receive_packet inv_process_packet split: option.splits intro!: inv_then_do)

lemma inv_dispatch: "snd_inv c \<Longrightarrow> snd_inv (fst (snd (dispatch c pkt)))"
  unfolding dispatch_def handle_syn_packet_def handle_syn_ack_packet_def handle_ack_packet_def
    handle_data_packet_def handle_rst_packet_def send_ack_def send_syn_ack_def Let_def
  by (auto simp: send_packet_conn intro!: inv_then_do)

lemma inv_run_op: "snd_inv c \<Longrightarrow> snd_inv (run_op c op)"
  by (cases op)
    (simp_all add: inv_open inv_close inv_send inv_receive inv_receive_packet inv_process_packet
       inv_dispatch listen_def split: option.splits)

lemma inv_run_ops: "snd_inv c \<Longrightarrow> snd_inv (run_ops c ops)"
  unfolding run_ops_def
  by (induction ops arbitrary: c) (simp_all add: inv_run_op)

lemma open_sets_counters:
  assumes "state c = CLOSED"
  shows "SND_NXT (fst (snd (open_connection c iss passive lp rp sm rb))) = iss + 1 \<and>
         SND_UNA (fst (snd (open_connection c iss passive lp rp sm rb))) = iss \<and>
         SND_ISS (fst (snd (open_connection c iss passive lp rp sm rb))) = iss"
proof -
  define Q where "Q k = (SND_NXT k = iss + 1 \<and> SND_UNA k = iss \<and> SND_ISS k = iss)"
    for k :: RDPConnection
  have upd [simp]: "Q (k\<lparr>state := s\<rparr>) = Q k" "Q (k\<lparr>conn_source_port := sp\<rparr>) = Q k" for k s sp
    by (simp_all add: Q_def)
  have start [simp]:
    "Q (c\<lparr>SND_ISS := iss, SND_NXT := iss + 1, SND_UNA := iss, SND_MAX := x, RMAX_BUF := y\<rparr>)"
    for x y
    by (simp add: Q_def)
  have "Q (fst (snd (open_connection c iss passive lp rp sm rb)))"
    using assms unfolding open_connection_def Let_def
    by (auto simp: allocate_local_port_def send_packet_conn split: option.splits
          intro!: then_do_pres [where Q = Q])
  then show ?thesis by (simp add: Q_def)
qed

text \<open>
  C9: a call of \<open>open\<close> in CLOSED leaves SND_NXT = SND_ISS + 1 and SND_UNA = SND_ISS, and
  after it every sequence of operations (open, close, send, receive, reading a packet,
  processing an inbound packet, the state dispatch, reset, listen) ends in a connection
  with SND_UNA \<le> SND_NXT, whether the single calls returned or raised.
\<close>

theorem snd_una_le_snd_nxt_after_open:
  assumes "state c = CLOSED"
    and "c' = fst (snd (open_connection c iss passive lp rp sm rb))"
  shows "SND_NXT c' = SND_ISS c' + 1 \<and> SND_UNA c' = SND_ISS c' \<and>
         SND_UNA (run_ops c' ops) \<le> SND_NXT (run_ops c' ops)"
proof -
  have counters: "SND_NXT c' = iss + 1 \<and> SND_UNA c' = iss \<and> SND_ISS c' = iss"
    using open_sets_counters [OF assms(1)] assms(2) by simp
  then have "snd_inv c'" by (simp add: snd_inv_def)
  then have "snd_inv (run_ops c' ops)" by (rule inv_run_ops)
  with counters show ?thesis by (simp add: snd_inv_def)
qed

theorem snd_una_le_snd_nxt_after_open_witness:
  "SND_UNA (run_ops (fst (snd (open_connection fresh_conn 4711 False None (Some 12345) None None)))
              [Dispatch ((packet (Some 12345) (Some 10000) 77 4711 [])\<lparr>syn := True, ack := True\<rparr>),
               Send [1, 2, 3], Receive ([], peer), Close, Reset])
   \<le> SND_NXT (run_ops (fst (snd (open_connection fresh_conn 4711 False None (Some 12345) None None)))
              [Dispatch ((packet (Some 12345) (Some 10000) 77 4711 [])\<lparr>syn := True, ack := True\<rparr>),
               Send [1, 2, 3], Receive ([], peer), Close, Reset])"
proof -
  have closed: "state fresh_conn = CLOSED"
    by (simp add: fresh_conn_def init_def)
  show ?thesis
    using snd_una_le_snd_nxt_after_open [OF closed refl] by blast
qed

subsection \<open>Encoding followed by decoding\<close>

lemma uint_byte: "0 \<le> k \<Longrightarrow> k < 256 \<Longrightarrow> uint (word_of_int k :: byte) = k"
  by (simp add: uint_word_of_int)

lemma from_bytes_one: "from_bytes_big [a] = uint a"
  by (simp add: from_bytes_big_def)

lemma from_bytes_two: "from_bytes_big [a, b] = uint a * 256 + uint b"
  by (simp add: from_bytes_big_def)

lemma from_bytes_four:
  "from_bytes_big [a, b, c, d] = ((uint a * 256 + uint b) * 256 + uint c) * 256 + uint d"
  by (simp add: from_bytes_big_def)

lemma from_bytes_H:
  assumes "0 \<le> n" "n \<le> 65535"
  shows "from_bytes_big [word_of_int (n div 256), word_of_int (n mod 256)] = n"
proof -
  have "0 \<le> n div 256" "n div 256 < 256" using assms by simp_all
  then have "uint (word_of_int (n div 256) :: byte) = n div 256"
    by (rule uint_byte)
  moreover have "uint (word_of_int (n mod 256) :: byte) = n mod 256"
    by (rule uint_byte) simp_all
  ultimately show ?thesis
    unfolding from_bytes_two by simp
qed

lemma radix_256:
  fixes n :: int
  assumes "n = 256 * q + r" "q = 256 * q2 + r2" "q2 = 256 * q3 + r3"
  shows "((q3 * 256 + r3) * 256 + r2) * 256 + r = n"
  using assms by simp

lemma from_bytes_I:
  assumes "0 \<le> n" "n \<le> 4294967295"
  shows "from_bytes_big [word_of_int (n div 16777216), word_of_int (n div 65536 mod 256),
                   word_of_int (n div 256 mod 256), word_of_int (n mod 256)] = n"
proof -
  have "0 \<le> n div 16777216" "n div 16777216 < 256" using assms by simp_all
  then have a: "uint (word_of_int (n div 16777216) :: byte) = n div 16777216"
    by (rule uint_byte)
  have b: "uint (word_of_int (n div 65536 mod 256) :: byte) = n div 65536 mod 256"
    by (rule uint_byte) simp_all
  have c: "uint (word_of_int (n div 256 mod 256) :: byte) = n div 256 mod 256"
    by (rule uint_byte) simp_all
  have d: "uint (word_of_int (n mod 256) :: byte) = n mod 256"
    by (rule uint_byte) simp_all
  have e: "n div 65536 = n div 256 div 256" "n div 16777216 = n div 256 div 256 div 256"
    by (simp_all add: zdiv_zmult2_eq)
  have 1: "n = 256 * (n div 256) + n mod 256" by simp
  have 2: "n div 256 = 256 * (n div 256 div 256) + n div 256 mod 256" by simp
  have 3: "n div 256 div 256 = 256 * (n div 256 div 256 div 256) + n div 256 div 256 mod 256"
    by simp
  have "((n div 16777216 * 256 + n div 65536 mod 256) * 256 + n div 256 mod 256) * 256 + n mod 256
        = n"
    unfolding e by (rule radix_256 [OF 1 2 3])
  then show ?thesis
    unfolding from_bytes_four a b c d .
qed


lemma and_ff_mod: "(k::int) AND 0xFF = k mod 256"
proof -
  have "(0xFF::int) = mask 8" by (simp add: mask_eq_exp_minus_1)
  then show ?thesis by (simp only: flip: take_bit_eq_mask) (simp add: take_bit_eq_mod)
qed

lemma control_flags_read: "from_bytes_big [cb, 9] AND 0xFF = 9"
  unfolding and_ff_mod from_bytes_two by simp

lemma decode_flags:
  assumes "from_bytes_big (bytes_slice 0 2 (take 22 bs)) AND 0xFF = f" "22 \<le> length bs"
  shows "decode bs =
           Inr \<lparr>source_port = Some (from_bytes_big (bytes_slice 2 4 (take 22 bs))),
                dest_port = Some (from_bytes_big (bytes_slice 4 6 (take 22 bs))),
                seq_num = from_bytes_big (bytes_slice 10 14 (take 22 bs)),
                ack_num = from_bytes_big (bytes_slice 14 18 (take 22 bs)),
                data = drop 22 bs,
                syn = (drop_bit 3 f AND 1 \<noteq> 0), ack = (drop_bit 2 f AND 1 \<noteq> 0),
                eack = (drop_bit 1 f AND 1 \<noteq> 0), rst = (f AND 1 \<noteq> 0),
                nul = (drop_bit 4 f AND 1 \<noteq> 0)\<rparr>"
  unfolding decode_def Let_def assms(1) using assms(2) by simp

lemma decode_header:
  assumes "0 \<le> sp" "sp \<le> 65535" "0 \<le> dp" "dp \<le> 65535"
    "0 \<le> sq" "sq \<le> 4294967295" "0 \<le> ak" "ak \<le> 4294967295"
  shows "decode ([cb, 9] @ [word_of_int (sp div 256), word_of_int (sp mod 256)] @
                 [word_of_int (dp div 256), word_of_int (dp mod 256)] @ [l1, l2, l3, l4] @
                 [word_of_int (sq div 16777216), word_of_int (sq div 65536 mod 256),
                  word_of_int (sq div 256 mod 256), word_of_int (sq mod 256)] @
                 [word_of_int (ak div 16777216), word_of_int (ak div 65536 mod 256),
                  word_of_int (ak div 256 mod 256), word_of_int (ak mod 256)] @
                 [c1, c2, c3, c4] @ d)
         = Inr \<lparr>source_port = Some sp, dest_port = Some dp, seq_num = sq, ack_num = ak, data = d,
                 syn = True, ack = False, eack = False, rst = True, nul = False\<rparr>"
    (is "decode ?bs = _")
proof -
  have f: "from_bytes_big (bytes_slice 0 2 (take 22 ?bs)) AND 0xFF = 9"
    by (simp add: bytes_slice_def control_flags_read)
  have len: "22 \<le> length ?bs" by simp
  show ?thesis
    unfolding decode_flags [OF f len] using assms
    by (simp add: bytes_slice_def from_bytes_H from_bytes_I)
qed


lemma decode_encode:
  assumes "encode p = Inr bs"
  shows "decode bs = Inr (p\<lparr>syn := True, ack := False, eack := False, rst := True, nul := False\<rparr>)"
proof -
  have v: "valid_packet p"
    using assms encode_defined [of p] by blast
  then obtain sp dp where ports: "source_port p = Some sp" "dest_port p = Some dp"
    by (auto simp: valid_packet_def split: option.splits)
  from v ports have r: "0 \<le> sp" "sp \<le> 65535" "0 \<le> dp" "dp \<le> 65535"
    "0 \<le> seq_num p" "seq_num p \<le> 4294967295" "0 \<le> ack_num p" "ack_num p \<le> 4294967295"
    "int (length (data p)) \<le> 4294967295"
    by (simp_all add: valid_packet_def)
  obtain k where k: "compute_checksum p = Inr k"
    using v compute_checksum_defined by blast
  have kr: "0 \<le> k" "k \<le> 4294967295"
    using compute_checksum_range [OF k] by simp_all
  have "bs = [(if nul p then 0x10 else 0) OR 0x10 OR (if syn p then 8 else 0) OR
                (if ack p then 4 else 0) OR (if eack p then 2 else 0) OR
                (if rst p then 1 else 0), 9] @
          [word_of_int (sp div 256), word_of_int (sp mod 256)] @
          [word_of_int (dp div 256), word_of_int (dp mod 256)] @
          [word_of_int (int (length (data p)) div 16777216),
           word_of_int (int (length (data p)) div 65536 mod 256),
           word_of_int (int (length (data p)) div 256 mod 256),
           word_of_int (int (length (data p)) mod 256)] @
          [word_of_int (seq_num p div 16777216), word_of_int (seq_num p div 65536 mod 256),
           word_of_int (seq_num p div 256 mod 256), word_of_int (seq_num p mod 256)] @
          [word_of_int (ack_num p div 16777216), word_of_int (ack_num p div 65536 mod 256),
           word_of_int (ack_num p div 256 mod 256), word_of_int (ack_num p mod 256)] @
          [word_of_int (k div 16777216), word_of_int (k div 65536 mod 256),
           word_of_int (k div 256 mod 256), word_of_int (k mod 256)] @ data p"
    using assms r kr by (simp add: encode_unfold k ports pack_port_def pack_H_def pack_I_def)
  then have "decode bs = Inr \<lparr>source_port = Some sp, dest_port = Some dp, seq_num = seq_num p,
                ack_num = ack_num p, data = data p,
                syn = True, ack = False, eack = False, rst = True, nul = False\<rparr>"
    using decode_header [OF r(1-8)] by simp
  then show ?thesis
    using ports by simp
qed

text \<open>
  C1, at the unflagged data packet \<open>plain_packet\<close>: \<open>encode\<close> writes the flags into bits
  8 to 12 of the control word, \<open>decode\<close> reads them from its low byte, which holds the
  header length 9 = 0b01001. The decoded packet has SYN and RST set although the encoded
  one has no flag; ports, sequence and acknowledgement numbers and payload are recovered.
  By \<open>decode_encode\<close> every encoded packet decodes with exactly the flags SYN and RST.
\<close>

theorem roundtrip_sets_syn_rst:
  "encode plain_packet = Inr plain_bytes \<and>
   decode plain_bytes = Inr (plain_packet\<lparr>syn := True, rst := True\<rparr>) \<and>
   \<not> syn plain_packet \<and> \<not> rst plain_packet"
  by (simp add: plain_packet_def plain_bytes_def packet_def encode_def compute_checksum_def
        pack_H_def pack_I_def pack_port_def flag_int_def from_bytes_big_def decode_def
        bytes_slice_def)

subsection \<open>The checksum\<close>

lemma add_words_sum: "add_words acc bs = acc + sum_list (be_words bs)"
  by (induction acc bs rule: add_words.induct) (simp_all add: from_bytes_one from_bytes_two)

lemma be_words_nonneg: "0 \<le> sum_list (be_words bs)"
  by (induction bs rule: be_words.induct) simp_all

lemma be_words_bound: "sum_list (be_words bs) \<le> 65535 * int ((length bs + 1) div 2)"
proof (induction bs rule: be_words.induct)
  case 1
  then show ?case by simp
next
  case (2 a)
  have "uint a < 256" using uint_bounded [of a] by simp
  then show ?case by simp
next
  case (3 a b rest)
  have "uint a < 256" "uint b < 256" using uint_bounded [of a] uint_bounded [of b] by simp_all
  then have "uint a * 256 + uint b \<le> 65535" by simp
  with 3 show ?case by simp
qed


declare fold_carry.simps [simp del]

lemma fold_carry_small: "s < 65536 \<Longrightarrow> fold_carry s = s"
  by (subst fold_carry.simps) simp

lemma fold_carry_step:
  "\<not> s < 65536 \<Longrightarrow> fold_carry s = fold_carry (s div 65536 + s mod 65536)"
  by (subst fold_carry.simps) simp

lemma fold_carry_char:
  "0 \<le> s \<Longrightarrow> fold_carry s = (if s = 0 then 0 else (s - 1) mod 65535 + 1)"
proof (induction s rule: fold_carry.induct)
  case (1 s)
  show ?case
  proof (cases "s < 65536")
    case True
    then have "fold_carry s = s" by (rule fold_carry_small)
    moreover have "s \<noteq> 0 \<Longrightarrow> (s - 1) mod 65535 = s - 1"
      using True "1.prems" by (simp add: mod_pos_pos_trivial)
    ultimately show ?thesis by auto
  next
    case False
    define q where "q = s div 65536"
    define r where "r = s mod 65536"
    have s: "s = 65536 * q + r" by (simp add: q_def r_def)
    have q: "1 \<le> q" using False by (simp add: q_def)
    have r: "0 \<le> r" by (simp add: r_def)
    have pos: "0 \<le> q + r" "q + r \<noteq> 0" using q r by simp_all
    have "fold_carry s = fold_carry (q + r)"
      using False by (simp add: fold_carry_step q_def r_def)
    also have "\<dots> = (q + r - 1) mod 65535 + 1"
      using "1.IH" [OF False] pos by (simp add: q_def r_def)
    also have "(q + r - 1) mod 65535 = (q + r - 1 + 65535 * q) mod 65535"
      by (rule mod_mult_self2 [symmetric])
    also have "q + r - 1 + 65535 * q = s - 1"
      using s by simp
    finally show ?thesis using False by simp
  qed
qed

lemma fold_carry_range: "0 \<le> s \<Longrightarrow> 0 \<le> fold_carry s \<and> fold_carry s < 65536"
  by (simp add: fold_carry_char)

lemma fold_carry_cong:
  assumes "0 \<le> c" "0 \<le> q" "c = 0 \<longrightarrow> q = 0"
  shows "fold_carry (c + 65535 * q) = fold_carry c"
proof (cases "c = 0")
  case True
  with assms show ?thesis by simp
next
  case False
  with assms have pos: "0 \<le> c + 65535 * q" "c + 65535 * q \<noteq> 0" by simp_all
  have "c + 65535 * q - 1 = c - 1 + 65535 * q" by simp
  then have "(c + 65535 * q - 1) mod 65535 = (c - 1 + 65535 * q) mod 65535"
    by (rule arg_cong)
  also have "\<dots> = (c - 1) mod 65535" by (rule mod_mult_self2)
  finally show ?thesis
    using pos False assms(1) by (simp add: fold_carry_char)
qed



lemma code_fold:
  assumes "0 \<le> s" "s < 4294967296"
  defines "c1 \<equiv> s div 65536 + s mod 65536"
  shows "(c1 div 65536 + c1) mod 65536 = fold_carry s"
proof -
  have q: "0 \<le> s div 65536" "s div 65536 < 65536" using assms by simp_all
  have r: "0 \<le> s mod 65536" "s mod 65536 < 65536" by simp_all
  have c1: "0 \<le> c1" "c1 \<le> 131070" using q r by (simp_all add: c1_def)
  have fs: "fold_carry s = fold_carry c1"
  proof (cases "s < 65536")
    case True
    then have "s div 65536 = 0" "s mod 65536 = s"
      using assms(1) by (simp_all add: div_pos_pos_trivial mod_pos_pos_trivial)
    then have "c1 = s" by (simp add: c1_def)
    then show ?thesis by simp
  next
    case False
    then show ?thesis by (simp add: fold_carry_step c1_def)
  qed
  show ?thesis
  proof (cases "c1 < 65536")
    case True
    then have "c1 div 65536 = 0" "c1 mod 65536 = c1"
      using c1 by (simp_all add: div_pos_pos_trivial mod_pos_pos_trivial)
    then show ?thesis using True fs by (simp add: fold_carry_small)
  next
    case False
    have e: "c1 = 65536 * 1 + (c1 - 65536)" by simp
    have lo: "0 \<le> c1 - 65536" "c1 - 65536 < 65536" "c1 - 65536 < 65535"
      using False c1 by simp_all
    have d: "c1 div 65536 = 1"
      using e lo(1,2) by (rule int_div_pos_eq)
    have m: "c1 mod 65536 = c1 - 65536"
      using e lo(1,2) by (rule int_mod_pos_eq)
    have "fold_carry c1 = fold_carry (1 + (c1 - 65536))"
      using False d m by (simp add: fold_carry_step)
    also have "\<dots> = 1 + (c1 - 65536)"
    proof (rule fold_carry_small)
      show "1 + (c1 - 65536) < 65536" using lo by simp
    qed
    finally have f: "fold_carry s = c1 - 65535" using fs by simp
    have e2: "c1 + 1 = 65536 * 1 + (c1 - 65535)" by simp
    have lo2: "0 \<le> c1 - 65535" "c1 - 65535 < 65536" using False c1 by simp_all
    have "(c1 + 1) mod 65536 = c1 - 65535"
      using e2 lo2 by (rule int_mod_pos_eq)
    then show ?thesis using d f by (simp add: add.commute)
  qed
qed


lemma and_ffff_mod: "(k::int) AND 0xffff = k mod 65536"
proof -
  have "(0xffff::int) = mask 16" by (simp add: mask_eq_exp_minus_1)
  then show ?thesis by (simp only: flip: take_bit_eq_mask) (simp add: take_bit_eq_mod)
qed

lemma not_and_ffff: "NOT (k::int) AND 0xffff = 65535 - k mod 65536"
proof -
  have "(- k - 1) mod 65536 = (65535 - k) mod 65536"
    using mod_add_self2 [of "- k - 1" 65536] by (simp add: algebra_simps)
  also have "\<dots> = (65535 - k mod 65536) mod 65536"
    by (simp add: mod_diff_right_eq)
  also have "\<dots> = 65535 - k mod 65536"
    by (simp add: mod_pos_pos_trivial)
  finally show ?thesis
    by (simp add: and_ffff_mod not_int_def)
qed

lemma not_mod_65536: "NOT (k::int) mod 65536 = 65535 - k mod 65536"
  using not_and_ffff [of k] by (simp add: and_ffff_mod)

lemma from_bytes_hi:
  assumes "0 \<le> n" "n \<le> 4294967295"
  shows "from_bytes_big [word_of_int (n div 16777216), word_of_int (n div 65536 mod 256)]
         = n div 65536"
proof -
  have m: "0 \<le> n div 65536" "n div 65536 \<le> 65535" using assms by simp_all
  have "n div 16777216 = n div 65536 div 256"
    using zdiv_zmult2_eq [of 256 n 65536] by simp
  then show ?thesis using from_bytes_H [OF m] by simp
qed

lemma from_bytes_lo:
  "from_bytes_big [word_of_int (n div 256 mod 256), word_of_int (n mod 256)] = n mod 65536"
proof -
  have a: "uint (word_of_int (n div 256 mod 256) :: byte) = n div 256 mod 256"
    by (rule uint_byte) simp_all
  have b: "uint (word_of_int (n mod 256) :: byte) = n mod 256"
    by (rule uint_byte) simp_all
  have "n mod 65536 = 256 * (n div 256 mod 256) + n mod 256"
    using zmod_zmult2_eq [of 256 n 256] by simp
  then show ?thesis unfolding from_bytes_two a b by simp
qed

lemma header_sum:
  assumes "0 \<le> sp" "sp \<le> 65535" "0 \<le> dp" "dp \<le> 65535" "0 \<le> len" "len \<le> 65535"
    "0 \<le> sq" "sq \<le> 4294967295" "0 \<le> ak" "ak \<le> 4294967295"
  shows "add_words 0
           [word_of_int (sp div 256), word_of_int (sp mod 256),
            word_of_int (dp div 256), word_of_int (dp mod 256),
            word_of_int (len div 256), word_of_int (len mod 256),
            word_of_int (sq div 16777216), word_of_int (sq div 65536 mod 256),
            word_of_int (sq div 256 mod 256), word_of_int (sq mod 256),
            word_of_int (ak div 16777216), word_of_int (ak div 65536 mod 256),
            word_of_int (ak div 256 mod 256), word_of_int (ak mod 256)]
         = sp + dp + len + sq div 65536 + sq mod 65536 + ak div 65536 + ak mod 65536"
  using assms
  by (simp add: from_bytes_H from_bytes_hi from_bytes_lo)


lemma compute_checksum_sum:
  assumes v: "valid_packet p" and ports: "source_port p = Some sp" "dest_port p = Some dp"
  defines "C \<equiv> sp + dp + int (length (data p)) + seq_num p div 65536 + seq_num p mod 65536 +
                 ack_num p div 65536 + ack_num p mod 65536 + sum_list (be_words (data p))"
  shows "compute_checksum p =
           Inr (65535 - ((C div 65536 + C mod 65536) div 65536 + (C div 65536 + C mod 65536))
                        mod 65536)"
proof -
  from v ports have r: "0 \<le> sp" "sp \<le> 65535" "0 \<le> dp" "dp \<le> 65535"
    "0 \<le> int (length (data p))" "int (length (data p)) \<le> 65535"
    "0 \<le> seq_num p" "seq_num p \<le> 4294967295" "0 \<le> ack_num p" "ack_num p \<le> 4294967295"
    by (simp_all add: valid_packet_def)
  have pack: "struct_pack [pack_port (source_port p), pack_port (dest_port p),
                           pack_H (int (length (data p))), pack_I (seq_num p), pack_I (ack_num p)]
      = Inr [word_of_int (sp div 256), word_of_int (sp mod 256),
            word_of_int (dp div 256), word_of_int (dp mod 256),
            word_of_int (int (length (data p)) div 256), word_of_int (int (length (data p)) mod 256),
            word_of_int (seq_num p div 16777216), word_of_int (seq_num p div 65536 mod 256),
            word_of_int (seq_num p div 256 mod 256), word_of_int (seq_num p mod 256),
            word_of_int (ack_num p div 16777216), word_of_int (ack_num p div 65536 mod 256),
            word_of_int (ack_num p div 256 mod 256), word_of_int (ack_num p mod 256)]"
    using r by (simp add: ports pack_port_def pack_H_def pack_I_def)
  have total: "add_words (add_words 0 [word_of_int (sp div 256), word_of_int (sp mod 256),
            word_of_int (dp div 256), word_of_int (dp mod 256),
            word_of_int (int (length (data p)) div 256), word_of_int (int (length (data p)) mod 256),
            word_of_int (seq_num p div 16777216), word_of_int (seq_num p div 65536 mod 256),
            word_of_int (seq_num p div 256 mod 256), word_of_int (seq_num p mod 256),
            word_of_int (ack_num p div 16777216), word_of_int (ack_num p div 65536 mod 256),
            word_of_int (ack_num p div 256 mod 256), word_of_int (ack_num p mod 256)]) (data p) = C"
    by (subst add_words_sum, subst header_sum [OF r]) (simp add: C_def)
  show ?thesis
    unfolding compute_checksum_def pack Let_def sum.case total and_ffff_mod
      drop_bit_eq_div not_mod_65536 by simp
qed


lemma words_upper:
  assumes "length d \<le> 65535"
  shows "sum_list (be_words d) \<le> 2147516416"
proof -
  have "(length d + 1) div 2 \<le> 32768" using assms by simp
  then have "int ((length d + 1) div 2) \<le> 32768" by simp
  then have "65535 * int ((length d + 1) div 2) \<le> 65535 * 32768"
    by (rule mult_left_mono) simp
  with be_words_bound [of d] show ?thesis by simp
qed

lemma compute_checksum_value:
  assumes v: "valid_packet p" and ports: "source_port p = Some sp" "dest_port p = Some dp"
  shows "compute_checksum p =
           Inr (ones_complement_checksum sp dp (int (length (data p))) (seq_num p) (ack_num p)
                  (be_words (data p))) \<and>
         (even (length (data p)) \<longrightarrow>
            compute_checksum p = Inr (spec_checksum sp dp (seq_num p) (ack_num p) (data p)))"
proof -
  define W where "W = sum_list (be_words (data p))"
  define L where "L = int (length (data p))"
  define qs where "qs = seq_num p div 65536"
  define rs where "rs = seq_num p mod 65536"
  define qa where "qa = ack_num p div 65536"
  define ra where "ra = ack_num p mod 65536"
  define C where "C = sp + dp + L + qs + rs + qa + ra + W"
  define T where "T = sp + dp + L + seq_num p + ack_num p + W"
  from v ports have r: "0 \<le> sp" "sp \<le> 65535" "0 \<le> dp" "dp \<le> 65535"
    "0 \<le> L" "L \<le> 65535" "length (data p) \<le> 65535"
    "0 \<le> seq_num p" "seq_num p \<le> 4294967295" "0 \<le> ack_num p" "ack_num p \<le> 4294967295"
    by (simp_all add: valid_packet_def L_def)
  have w: "0 \<le> W" "W \<le> 2147516416"
    using be_words_nonneg [of "data p"] words_upper [OF r(7)] by (simp_all add: W_def)
  have q: "0 \<le> qs" "qs \<le> 65535" "0 \<le> qa" "qa \<le> 65535"
    using r by (simp_all add: qs_def qa_def)
  have m: "0 \<le> rs" "rs \<le> 65535" "0 \<le> ra" "ra \<le> 65535"
    by (simp_all add: rs_def ra_def)
  have C: "0 \<le> C" "C < 4294967296"
    using r w q m by (simp_all add: C_def)
  have sq: "seq_num p = 65536 * qs + rs" and ak: "ack_num p = 65536 * qa + ra"
    by (simp_all add: qs_def rs_def qa_def ra_def)
  have T: "T = C + 65535 * (qs + qa)"
    unfolding T_def C_def sq ak by simp
  have zero: "C = 0 \<longrightarrow> qs + qa = 0"
    using r w q m by (simp add: C_def)
  have "fold_carry T = fold_carry C"
    unfolding T using C(1) _ zero by (rule fold_carry_cong) (use q in simp)
  moreover have "fold_carry T mod 65536 = fold_carry T"
  proof -
    have "0 \<le> T" using C q by (simp add: T)
    then show ?thesis using fold_carry_range [of T] by simp
  qed
  moreover have "((C div 65536 + C mod 65536) div 65536 + (C div 65536 + C mod 65536)) mod 65536
                 = fold_carry C"
    using C by (rule code_fold)
  moreover have "compute_checksum p =
           Inr (65535 - ((C div 65536 + C mod 65536) div 65536 + (C div 65536 + C mod 65536))
                        mod 65536)"
    using compute_checksum_sum [OF v ports]
    by (simp add: C_def L_def qs_def rs_def qa_def ra_def W_def)
  ultimately have main: "compute_checksum p =
           Inr (ones_complement_checksum sp dp (int (length (data p))) (seq_num p) (ack_num p)
                  (be_words (data p)))"
    by (simp add: ones_complement_checksum_def T_def L_def W_def)
  then show ?thesis
    by (simp add: spec_checksum_def pad_trailing_def)
qed

text \<open>
  C2, as the code has it: for every packet that \<open>compute_checksum\<close> accepts (both ports
  present and 16-bit, sequence and acknowledgement numbers 32-bit, at most 65535 payload
  bytes) the result is the one's-complement checksum of source port, destination port,
  payload length, sequence number, acknowledgement number and the big-endian 16-bit words
  of the payload, where the last byte of a payload of odd length is added as its own value:
  the zero byte that completes the last word stands before that byte, not after it. For a
  payload of even length this is the checksum of the specification. For every other packet
  \<open>compute_checksum\<close> raises \<open>struct.error\<close>.
\<close>

theorem compute_checksum_ones_complement:
  "(valid_packet p \<and> source_port p = Some sp \<and> dest_port p = Some dp \<longrightarrow>
      compute_checksum p =
        Inr (ones_complement_checksum sp dp (int (length (data p))) (seq_num p) (ack_num p)
               (be_words (data p))) \<and>
      (even (length (data p)) \<longrightarrow>
         compute_checksum p = Inr (spec_checksum sp dp (seq_num p) (ack_num p) (data p)))) \<and>
   (\<not> valid_packet p \<longrightarrow> compute_checksum p = Inl StructError)"
proof (intro conjI impI)
  assume "\<not> valid_packet p"
  then have "\<not> (\<exists>k. compute_checksum p = Inr k)" by (simp add: compute_checksum_defined)
  then obtain e where "compute_checksum p = Inl e" by (cases "compute_checksum p") auto
  then show "compute_checksum p = Inl StructError"
    using compute_checksum_error by blast
qed (use compute_checksum_value in blast)+

theorem compute_checksum_ones_complement_witness:
  "compute_checksum odd_packet = Inr (ones_complement_checksum 0 0 1 0 0 [1]) \<and>
   compute_checksum (packet (Some 1) (Some 2) 3 4 [5, 6]) = Inr (spec_checksum 1 2 3 4 [5, 6])"
proof -
  have h: "valid_packet odd_packet" "source_port odd_packet = Some 0"
    "dest_port odd_packet = Some 0"
    by (simp_all add: odd_packet_def packet_def valid_packet_def)
  have g: "valid_packet (packet (Some 1) (Some 2) 3 4 [5, 6])"
    "source_port (packet (Some 1) (Some 2) 3 4 [5, 6]) = Some 1"
    "dest_port (packet (Some 1) (Some 2) 3 4 [5, 6]) = Some 2"
    by (simp_all add: packet_def valid_packet_def)
  have e: "even (length (data (packet (Some 1) (Some 2) 3 4 [5, 6])))"
    by (simp add: packet_def)
  have 1: "compute_checksum odd_packet =
             Inr (ones_complement_checksum 0 0 (int (length (data odd_packet)))
                    (seq_num odd_packet) (ack_num odd_packet) (be_words (data odd_packet)))"
    using compute_checksum_ones_complement [of odd_packet 0 0] h by blast
  have 2: "compute_checksum (packet (Some 1) (Some 2) 3 4 [5, 6]) =
             Inr (spec_checksum 1 2 (seq_num (packet (Some 1) (Some 2) 3 4 [5, 6]))
                    (ack_num (packet (Some 1) (Some 2) 3 4 [5, 6]))
                    (data (packet (Some 1) (Some 2) 3 4 [5, 6])))"
    using compute_checksum_ones_complement [of "packet (Some 1) (Some 2) 3 4 [5, 6]" 1 2] g e by blast
  have f: "int (length (data odd_packet)) = 1" "seq_num odd_packet = 0" "ack_num odd_packet = 0"
    "be_words (data odd_packet) = [1]"
    "seq_num (packet (Some 1) (Some 2) 3 4 [5, 6]) = 3"
    "ack_num (packet (Some 1) (Some 2) 3 4 [5, 6]) = 4"
    "data (packet (Some 1) (Some 2) 3 4 [5, 6]) = [5, 6]"
    by (simp_all add: odd_packet_def packet_def)
  from 1 2 show ?thesis unfolding f by (rule conjI)
qed

text \<open>
  C2 as stated fails on a payload of odd length: for the single payload byte 1 (and zero
  header fields) the code adds 1 to the length 1, which gives 65533, where the
  specification pads the byte to the word 0x0100, which gives 65278.
\<close>

theorem checksum_of_odd_payload:
  "compute_checksum odd_packet = Inr 65533 \<and> spec_checksum 0 0 0 0 (data odd_packet) = 65278"
  by (simp add: odd_packet_def packet_def compute_checksum_def pack_port_def pack_H_def
        pack_I_def from_bytes_big_def spec_checksum_def pad_trailing_def
        ones_complement_checksum_def fold_carry_small)

end
